theory Spec2Isabelle
  imports Main "HOL-Library.Multiset"
begin

section \<open>Go library functions used by the sources\<close>

text \<open>
  The sources call \<^verbatim>\<open>strings.Split\<close>, \<^verbatim>\<open>strings.Join\<close>, \<^verbatim>\<open>strings.Contains\<close>,
  \<^verbatim>\<open>strconv.Atoi\<close>, \<^verbatim>\<open>strconv.Itoa\<close> and a regular expression. They are modelled
  here after the Go standard library; a Go \<^verbatim>\<open>string\<close> is a list of bytes, a Go
  \<^verbatim>\<open>int\<close> is a 64-bit signed integer. Machine integers are written as HOL integers
  with their bounds spelled out.
\<close>

definition isDigit :: "char \<Rightarrow> bool" where
  "isDigit c = (48 \<le> (of_char c :: nat) \<and> (of_char c :: nat) \<le> 57)"

definition digitVal :: "char \<Rightarrow> int" where
  "digitVal c = int (of_char c) - 48"

text \<open>\<^verbatim>\<open>strings.Split(s, sep)\<close> for a separator of one byte: the pieces between the
  separators; the empty string gives one empty piece.\<close>

fun Split :: "string \<Rightarrow> char \<Rightarrow> string list" where
  "Split [] sep = [[]]"
| "Split (c # cs) sep =
     (if c = sep then [] # Split cs sep
      else (case Split cs sep of
              [] \<Rightarrow> [[c]]
            | x # xs \<Rightarrow> (c # x) # xs))"

text \<open>\<^verbatim>\<open>strings.Join(elems, sep)\<close>.\<close>

fun Join :: "string list \<Rightarrow> string \<Rightarrow> string" where
  "Join [] sep = []"
| "Join [x] sep = x"
| "Join (x # y # ys) sep = x @ sep @ Join (y # ys) sep"

text \<open>\<^verbatim>\<open>strings.HasPrefix(s, prefix)\<close>.\<close>

definition HasPrefix :: "string \<Rightarrow> string \<Rightarrow> bool" where
  "HasPrefix s p = (take (length p) s = p)"

datatype NumError = ErrSyntax | ErrRange

definition maxUint64 :: int where
  "maxUint64 = 18446744073709551615"

definition maxInt64 :: int where
  "maxInt64 = 9223372036854775807"

text \<open>
  \<^verbatim>\<open>strconv.ParseUint(s, 10, 64)\<close>: the scan from the left stops at the first byte that is
  not a decimal digit (value 0, syntax error) or at the first overflow of 64 bits (the
  largest value, range error). The cutoff is \<^verbatim>\<open>maxUint64/10 + 1\<close>.
\<close>

fun ParseUint_loop :: "string \<Rightarrow> int \<Rightarrow> int \<times> NumError option" where
  "ParseUint_loop [] n = (n, None)"
| "ParseUint_loop (c # cs) n =
     (if \<not> isDigit c then (0, Some ErrSyntax)
      else if n \<ge> maxUint64 div 10 + 1 then (maxUint64, Some ErrRange)
      else (let n1 = n * 10 + digitVal c in
            if n1 > maxUint64 then (maxUint64, Some ErrRange)
            else ParseUint_loop cs n1))"

definition ParseUint :: "string \<Rightarrow> int \<times> NumError option" where
  "ParseUint s = (if s = [] then (0, Some ErrSyntax) else ParseUint_loop s 0)"

text \<open>
  \<^verbatim>\<open>strconv.ParseInt(s, 10, 0)\<close> on a 64-bit platform: an optional sign, then
  \<^verbatim>\<open>ParseUint\<close>; a value out of range is replaced by the nearest bound and reported as a
  range error.
\<close>

definition ParseInt :: "string \<Rightarrow> int \<times> NumError option" where
  "ParseInt s =
     (if s = [] then (0, Some ErrSyntax)
      else
        (let neg = (hd s = CHR ''-'');
             s1 = (if hd s = CHR ''+'' \<or> hd s = CHR ''-'' then tl s else s);
             r = ParseUint s1;
             un = fst r
         in if snd r = Some ErrSyntax then (0, Some ErrSyntax)
            else if \<not> neg \<and> un \<ge> maxInt64 + 1 then (maxInt64, Some ErrRange)
            else if neg \<and> un > maxInt64 + 1 then (- (maxInt64 + 1), Some ErrRange)
            else (if neg then - un else un, None)))"

text \<open>\<^verbatim>\<open>strconv.Atoi(s)\<close> returns what \<^verbatim>\<open>ParseInt(s, 10, 0)\<close> returns (its fast path for
  short strings computes the same value).\<close>

definition Atoi :: "string \<Rightarrow> int \<times> NumError option" where
  "Atoi s = ParseInt s"

text \<open>\<^verbatim>\<open>strconv.Itoa(i)\<close>: the decimal digits, after a minus sign for a negative number.\<close>

fun natDigits :: "nat \<Rightarrow> string" where
  "natDigits n =
     (if n < 10 then [char_of (48 + n)]
      else natDigits (n div 10) @ [char_of (48 + n mod 10)])"

definition Itoa :: "int \<Rightarrow> string" where
  "Itoa i = (if i < 0 then CHR ''-'' # natDigits (nat (- i)) else natDigits (nat i))"

text \<open>The number a string of decimal digits denotes (0 for the empty string).\<close>

definition decimal :: "string \<Rightarrow> int" where
  "decimal s = foldl (\<lambda>a c. a * 10 + digitVal c) 0 s"

section \<open>Package datatypes: vlan ranges and NAD classification\<close>

text \<open>Every Go \<^verbatim>\<open>error\<close> value the modelled functions build, one constructor for each
  \<^verbatim>\<open>fmt.Errorf\<close> of the sources (with the status code where the message carries one), and
  one for an error that the HTTP transport reports.\<close>

datatype error =
    TrunkFormatInvalid
  | ReadNadConfigFailed
  | IpvlanVlanInvalid
  | IpvlanMasterInvalid
  | SriovResourceNameMissing
  | VlanOutOfBound
  | InvalidVlanTrunkInCni
  | MissingOverlays
  | InvalidOverlaysFormat
  | InvalidOverlayValue
  | InvalidOverlayVlanRange
  | DifferentVlanRanges
  | EligibleToNotEligible
  | TypeChange
  | VlanChange
  | ResourceNameChange
  | ProjectChange
  | NetworkChange
  | TrunkCanOnlyIncrease
  | TrunkAndNodeSelectorChange
  | TransportError
  | CreateTenantFailed int
  | CreateSubnetFailed int
  | CreateHostPortLabelFailed int
  | CreateSubnetAssociationFailed int
  | DeleteHostPortLabelFailed int
  | CreateHostPortFailed int
  | HostPortNotExist
  | CreateHostPortAssociationFailed int
  | DeleteHostPortAssociationFailed int

subsection \<open>GetVlanIds\<close>

text \<open>The regular expression \<^verbatim>\<open>^[0-9\,\-]*$\<close>: every byte is a digit, a comma or a minus.\<close>

definition matchesTrunkPattern :: "string \<Rightarrow> bool" where
  "matchesTrunkPattern s = list_all (\<lambda>c. isDigit c \<or> c = CHR '','' \<or> c = CHR ''-'') s"

text \<open>
  The loop of \<^verbatim>\<open>GetVlanIds\<close> over the comma-separated elements, with the result
  accumulated so far. The errors of \<^verbatim>\<open>Atoi\<close> are dropped, as in the source
  (\<^verbatim>\<open>min, _ := strconv.Atoi(n[0])\<close>); an early return gives back the accumulated
  result with the error. The inner loop appends \<^verbatim>\<open>min+i\<close> for \<^verbatim>\<open>i\<close> from 0 below
  \<^verbatim>\<open>count = max - min + 1\<close>.
\<close>

fun GetVlanIds_loop :: "string list \<Rightarrow> int list \<Rightarrow> int list \<times> error option" where
  "GetVlanIds_loop [] result = (result, None)"
| "GetVlanIds_loop (v # m) result =
     (if CHR ''-'' \<in> set v then
        (let n = Split v (CHR ''-'') in
         if length n \<noteq> 2 then (result, Some TrunkFormatInvalid)
         else
           (let vmin = fst (Atoi (n ! 0));
                vmax = fst (Atoi (n ! 1))
            in if vmin = 0 \<or> vmin > vmax then (result, Some TrunkFormatInvalid)
               else
                 (let count = vmax - vmin + 1 in
                  GetVlanIds_loop m (result @ map (\<lambda>i. vmin + int i) [0..<nat count]))))
      else GetVlanIds_loop m (result @ [fst (Atoi v)]))"

definition GetVlanIds :: "string \<Rightarrow> int list \<times> error option" where
  "GetVlanIds vlanTrunk =
     (if \<not> matchesTrunkPattern vlanTrunk then ([], Some TrunkFormatInvalid)
      else GetVlanIds_loop (Split vlanTrunk (CHR '','')) [])"

subsection \<open>NetworkAttachmentDefinition and NetConf\<close>

text \<open>
  \<^verbatim>\<open>NetConf\<close> embeds the CNI \<^verbatim>\<open>types.NetConf\<close>, of which the sources read the field
  \<^verbatim>\<open>Type\<close> only. Of a NAD the functions read \<^verbatim>\<open>Spec.Config\<close> and the annotations.
\<close>

record NetConf =
  Type :: string
  Master :: string
  Vlan :: int
  VlanTrunk :: string

record NetworkAttachmentDefinition =
  Config :: string
  Annotations :: "string \<rightharpoonup> string"

definition SriovResourceKey :: string where
  "SriovResourceKey = ''k8s.v1.cni.cncf.io/resourceName''"

definition NodeSelectorKey :: string where
  "NodeSelectorKey = ''k8s.v1.cni.cncf.io/nodeSelector''"

definition ExtProjectNameKey :: string where
  "ExtProjectNameKey = ''nokia.com/extProjectName''"

definition ExtNetworkNameKey :: string where
  "ExtNetworkNameKey = ''nokia.com/extNetworkName''"

definition SriovOverlaysKey :: string where
  "SriovOverlaysKey = ''nokia.com/sriov-vf-vlan-trunk-overlays''"

text \<open>\<^verbatim>\<open>NadAction\<close> is an \<^verbatim>\<open>int\<close> with the named values 1 to 10; \<open>NoAction\<close> stands for the
  value 0 that \<^verbatim>\<open>ShouldTriggerTopoUpdate\<close> returns when there is nothing to do.\<close>

datatype NadAction =
    NoAction
  | Create
  | Delete
  | CreateAttach
  | DeleteDetach
  | UpdateAttachDetach
  | UpdateAttach
  | UpdateDetach
  | NodeAttach
  | NodeDetach
  | NodeAttachDetach

text \<open>The test \<^verbatim>\<open>v, ok := m[k]; !ok || len(v) == 0\<close>, negated: the key is there with a
  value that is not empty. Reading a missing key of a Go map gives the empty string.\<close>

definition hasValue :: "(string \<rightharpoonup> string) \<Rightarrow> string \<Rightarrow> bool" where
  "hasValue m k = (case m k of None \<Rightarrow> False | Some v \<Rightarrow> length v \<noteq> 0)"

definition valueOrEmpty :: "(string \<rightharpoonup> string) \<Rightarrow> string \<Rightarrow> string" where
  "valueOrEmpty m k = (case m k of None \<Rightarrow> [] | Some v \<Rightarrow> v)"

definition zeroNetConf :: NetConf where
  "zeroNetConf = \<lparr>Type = [], Master = [], Vlan = 0, VlanTrunk = []\<rparr>"

subsection \<open>ShouldTriggerTopoAction\<close>

text \<open>The loop over the overlays of the annotation: each overlay needs the three keys and a
  \<^verbatim>\<open>vlanRange\<close> that \<^verbatim>\<open>GetVlanIds\<close> accepts; the ranges are collected in order.\<close>

fun overlays_loop :: "(string \<rightharpoonup> string) list \<Rightarrow> string list \<Rightarrow> error + string list" where
  "overlays_loop [] vlanRanges = Inr vlanRanges"
| "overlays_loop (overlay # rest) vlanRanges =
     (case overlay ''vlanRange'' of
        None \<Rightarrow> Inl InvalidOverlayValue
      | Some vlanRange \<Rightarrow>
          if overlay ''extProjectName'' = None \<or> overlay ''extNetworkName'' = None
          then Inl InvalidOverlayValue
          else if snd (GetVlanIds vlanRange) \<noteq> None then Inl InvalidOverlayVlanRange
          else overlays_loop rest (vlanRanges @ [vlanRange]))"

text \<open>
  \<^verbatim>\<open>ShouldTriggerTopoAction\<close> returns the \<^verbatim>\<open>NetConf\<close>, whether the NAD is eligible, and an
  error. Decoding JSON is left to two parameters: \<open>getNetConf\<close> is \<^verbatim>\<open>GetNetConf\<close> as a
  function of \<^verbatim>\<open>nad.Spec.Config\<close> (\<open>None\<close> when it returns an error, and then the
  \<^verbatim>\<open>NetConf\<close> is the zero value), and \<open>unmarshalOverlays\<close> is \<^verbatim>\<open>json.Unmarshal\<close> into
  \<^verbatim>\<open>[]map[string]string\<close> (\<open>None\<close> when it fails). The body of the function is given in
  three blocks, in the order of the source.
\<close>

text \<open>The \<^verbatim>\<open>switch netConf.Type\<close> (the type is \<^verbatim>\<open>ipvlan\<close> or \<^verbatim>\<open>sriov\<close> when it is reached):
  it returns an error, or leaves \<^verbatim>\<open>vlanMode\<close> set.\<close>

definition nadTypeSwitch :: "NetConf \<Rightarrow> (string \<rightharpoonup> string) \<Rightarrow> error + bool" where
  "nadTypeSwitch netConf annotationsMap =
     (if Type netConf = ''ipvlan'' then
        (if Vlan netConf < 1 \<or> Vlan netConf > 4095 then Inl IpvlanVlanInvalid
         else if \<not> HasPrefix (Master netConf) ''tenant'' \<and>
                 \<not> HasPrefix (Master netConf) ''provider''
         then Inl IpvlanMasterInvalid
         else Inr True)
      else
        (if \<not> hasValue annotationsMap SriovResourceKey then Inl SriovResourceNameMissing
         else if length (VlanTrunk netConf) > 0 then Inr False
         else if Vlan netConf < 0 \<or> Vlan netConf > 4095 then Inl VlanOutOfBound
         else Inr True))"

text \<open>The branch \<^verbatim>\<open>if vlanMode\<close>: the project and the network annotation.\<close>

definition checkVlanMode :: "NetConf \<Rightarrow> (string \<rightharpoonup> string) \<Rightarrow> NetConf \<times> bool \<times> error option" where
  "checkVlanMode netConf annotationsMap =
     (if \<not> hasValue annotationsMap ExtProjectNameKey then (netConf, False, None)
      else if \<not> hasValue annotationsMap ExtNetworkNameKey then (netConf, False, None)
      else (netConf, True, None))"

text \<open>The \<^verbatim>\<open>else\<close> branch: the vlans of the trunk against those of the overlays, both
  sorted (\<^verbatim>\<open>sort.Ints\<close>) and compared with \<^verbatim>\<open>reflect.DeepEqual\<close>. Both slices come from
  \<^verbatim>\<open>GetVlanIds\<close>, which never returns a nil slice, so \<^verbatim>\<open>DeepEqual\<close> is equality of
  lists.\<close>

definition checkOverlays ::
  "(string \<Rightarrow> (string \<rightharpoonup> string) list option) \<Rightarrow> NetConf \<Rightarrow> (string \<rightharpoonup> string) \<Rightarrow>
   NetConf \<times> bool \<times> error option" where
  "checkOverlays unmarshalOverlays netConf annotationsMap =
     (let r = GetVlanIds (VlanTrunk netConf); vlanIds = fst r in
      if snd r \<noteq> None then (netConf, False, Some InvalidVlanTrunkInCni)
      else if \<not> hasValue annotationsMap SriovOverlaysKey
      then (netConf, False, Some MissingOverlays)
      else
        (case unmarshalOverlays (valueOrEmpty annotationsMap SriovOverlaysKey) of
           None \<Rightarrow> (netConf, False, Some InvalidOverlaysFormat)
         | Some overlays \<Rightarrow>
             (case overlays_loop overlays [] of
                Inl e \<Rightarrow> (netConf, False, Some e)
              | Inr vlanRanges \<Rightarrow>
                  (let vlanTrunk = Join vlanRanges '','';
                       overlayVlanIds = fst (GetVlanIds vlanTrunk)
                   in if sort vlanIds \<noteq> sort overlayVlanIds
                      then (netConf, False, Some DifferentVlanRanges)
                      else (netConf, True, None)))))"

definition ShouldTriggerTopoAction ::
  "(string \<Rightarrow> NetConf option) \<Rightarrow> (string \<Rightarrow> (string \<rightharpoonup> string) list option) \<Rightarrow>
   NetworkAttachmentDefinition \<Rightarrow> NetConf \<times> bool \<times> error option" where
  "ShouldTriggerTopoAction getNetConf unmarshalOverlays nad =
     (case getNetConf (Config nad) of
        None \<Rightarrow> (zeroNetConf, False, Some ReadNadConfigFailed)
      | Some netConf \<Rightarrow>
          if Type netConf \<noteq> ''ipvlan'' \<and> Type netConf \<noteq> ''sriov'' then (netConf, False, None)
          else
            (let annotationsMap = Annotations nad in
             if \<not> hasValue annotationsMap NodeSelectorKey then (netConf, False, None)
             else
               (case nadTypeSwitch netConf annotationsMap of
                  Inl e \<Rightarrow> (netConf, False, Some e)
                | Inr vlanMode \<Rightarrow>
                    if vlanMode then checkVlanMode netConf annotationsMap
                    else checkOverlays unmarshalOverlays netConf annotationsMap)))"

subsection \<open>ShouldTriggerTopoUpdate\<close>

text \<open>
  The result is the action, the new \<^verbatim>\<open>NetConf\<close> and an error. The error of the old NAD is
  dropped (\<^verbatim>\<open>oldNetConf, trigger1, _ := ShouldTriggerTopoAction(oldNad)\<close>). The map
  \<^verbatim>\<open>checkset\<close> holds the vlans of the new trunk; the loop over the old ones returns an
  error at the first that is missing.
\<close>

definition ShouldTriggerTopoUpdate ::
  "(string \<Rightarrow> NetConf option) \<Rightarrow> (string \<Rightarrow> (string \<rightharpoonup> string) list option) \<Rightarrow>
   NetworkAttachmentDefinition \<Rightarrow> NetworkAttachmentDefinition \<Rightarrow>
   NadAction \<times> NetConf \<times> error option" where
  "ShouldTriggerTopoUpdate getNetConf unmarshalOverlays oldNad newNad =
     (let old = ShouldTriggerTopoAction getNetConf unmarshalOverlays oldNad;
          new = ShouldTriggerTopoAction getNetConf unmarshalOverlays newNad;
          oldNetConf = fst old; trigger1 = fst (snd old);
          newNetConf = fst new; trigger2 = fst (snd new); err = snd (snd new)
      in if err \<noteq> None then (NoAction, newNetConf, err)
         else if \<not> trigger1 \<and> \<not> trigger2 then (NoAction, newNetConf, None)
         else if \<not> trigger1 \<and> trigger2 then (UpdateAttach, newNetConf, None)
         else if trigger1 \<and> \<not> trigger2 then (NoAction, newNetConf, Some EligibleToNotEligible)
         else if Type oldNetConf \<noteq> Type newNetConf then (NoAction, newNetConf, Some TypeChange)
         else if Vlan oldNetConf \<noteq> Vlan newNetConf then (NoAction, newNetConf, Some VlanChange)
         else
           (let vlanMode = \<not> (length (VlanTrunk oldNetConf) > 0);
                anno1 = Annotations oldNad;
                anno2 = Annotations newNad
            in if Type newNetConf = ''sriov'' \<and>
                  valueOrEmpty anno1 SriovResourceKey \<noteq> valueOrEmpty anno2 SriovResourceKey
               then (NoAction, newNetConf, Some ResourceNameChange)
               else if vlanMode \<and>
                       valueOrEmpty anno1 ExtProjectNameKey \<noteq> valueOrEmpty anno2 ExtProjectNameKey
               then (NoAction, newNetConf, Some ProjectChange)
               else if vlanMode \<and>
                       valueOrEmpty anno1 ExtNetworkNameKey \<noteq> valueOrEmpty anno2 ExtNetworkNameKey
               then (NoAction, newNetConf, Some NetworkChange)
               else if \<not> vlanMode \<and> VlanTrunk oldNetConf \<noteq> VlanTrunk newNetConf \<and>
                       (let vlanRange1 = fst (GetVlanIds (VlanTrunk oldNetConf));
                            vlanRange2 = fst (GetVlanIds (VlanTrunk newNetConf));
                            checkset = (\<lambda>v. v \<in> set vlanRange2)
                        in \<not> list_all checkset vlanRange1)
               then (NoAction, newNetConf, Some TrunkCanOnlyIncrease)
               else
                 (let ns1 = valueOrEmpty anno1 NodeSelectorKey;
                      ns2 = valueOrEmpty anno2 NodeSelectorKey
                  in if \<not> vlanMode \<and> VlanTrunk oldNetConf \<noteq> VlanTrunk newNetConf then
                       (if ns1 \<noteq> ns2 then (NoAction, newNetConf, Some TrunkAndNodeSelectorChange)
                        else (UpdateAttach, newNetConf, None))
                     else if ns1 = ns2 then (NoAction, newNetConf, None)
                     else (UpdateAttachDetach, newNetConf, None))))"

section \<open>Package fssclient: the mirror and the fabric engine\<close>

subsection \<open>Data types of the FSS Connect API\<close>

text \<open>
  A decoded JSON value: what \<^verbatim>\<open>interface{}\<close> holds after \<^verbatim>\<open>json.Unmarshal\<close>. A
  \<^verbatim>\<open>JSONNic\<close> (\<^verbatim>\<open>map[string]interface{}\<close>) and the body of a response are maps from member
  names to such values.
\<close>

datatype json =
    JNull
  | JBool bool
  | JNumber int
  | JString string
  | JArray "json list"
  | JObject "(string \<times> json) list"

type_synonym JSONNic = "string \<rightharpoonup> json"

record Deployment =
  Deployment_AdminUp :: bool
  Deployment_Name :: string
  Deployment_PluginID :: string
  Deployment_RegionID :: string
  Deployment_ID :: string
  Deployment_Status :: string

record Tenant =
  Tenant_DeploymentID :: string
  Tenant_FssWorkloadEvpnID :: string
  Tenant_FssWorkloadEvpnName :: string
  Tenant_Name :: string
  Tenant_FssManaged :: bool
  Tenant_ID :: string
  Tenant_Status :: string

record Subnet =
  Subnet_DeploymentID :: string
  Subnet_TenantID :: string
  Subnet_FssSubnetID :: string
  Subnet_FssSubnetName :: string
  Subnet_Name :: string
  Subnet_FssManaged :: bool
  Subnet_ID :: string
  Subnet_Status :: string

record HostPortLabel =
  HostPortLabel_DeploymentID :: string
  HostPortLabel_Name :: string
  HostPortLabel_ID :: string
  HostPortLabel_Status :: string

record SubnetAssociation =
  SubnetAssociation_DeploymentID :: string
  SubnetAssociation_HostPortLabelID :: string
  SubnetAssociation_SubnetID :: string
  SubnetAssociation_VlanType :: string
  SubnetAssociation_VlanValue :: string
  SubnetAssociation_ID :: string
  SubnetAssociation_Status :: string

record HostPort =
  HostPort_DeploymentID :: string
  HostPort_HostName :: string
  HostPort_PortName :: string
  HostPort_Name :: string
  HostPort_ID :: string
  HostPort_MacAddress :: string
  HostPort_IsLag :: bool
  HostPort_ParentHostPortID :: string
  HostPort_Status :: string
  HostPort_EdgeMapIds :: "string list"

record HostPortAssociation =
  HostPortAssociation_DeploymentID :: string
  HostPortAssociation_HostPortID :: string
  HostPortAssociation_HostPortLabelID :: string
  HostPortAssociation_ID :: string
  HostPortAssociation_Status :: string

text \<open>The zero values that a Go map gives for a missing key.\<close>

definition zeroTenant :: Tenant where
  "zeroTenant = \<lparr>Tenant_DeploymentID = [], Tenant_FssWorkloadEvpnID = [],
     Tenant_FssWorkloadEvpnName = [], Tenant_Name = [], Tenant_FssManaged = False,
     Tenant_ID = [], Tenant_Status = []\<rparr>"

definition zeroSubnet :: Subnet where
  "zeroSubnet = \<lparr>Subnet_DeploymentID = [], Subnet_TenantID = [], Subnet_FssSubnetID = [],
     Subnet_FssSubnetName = [], Subnet_Name = [], Subnet_FssManaged = False, Subnet_ID = [],
     Subnet_Status = []\<rparr>"

subsection \<open>Decoding a response into a struct\<close>

text \<open>
  \<^verbatim>\<open>json.Unmarshal(jsonResponse, &x)\<close> stores the members of the JSON object that fit a
  field of \<open>x\<close> and leaves every other field as it was; its error is dropped by every
  caller. The body of a response is given as the map from the JSON names of the fields to
  the decoded members (the empty map for a body that is no JSON object).
\<close>

definition stringField :: "(string \<rightharpoonup> json) \<Rightarrow> string \<Rightarrow> string \<Rightarrow> string" where
  "stringField b k old = (case b k of Some (JString s) \<Rightarrow> s | _ \<Rightarrow> old)"

definition boolField :: "(string \<rightharpoonup> json) \<Rightarrow> string \<Rightarrow> bool \<Rightarrow> bool" where
  "boolField b k old = (case b k of Some (JBool x) \<Rightarrow> x | _ \<Rightarrow> old)"

definition stringsField :: "(string \<rightharpoonup> json) \<Rightarrow> string \<Rightarrow> string list \<Rightarrow> string list" where
  "stringsField b k old =
     (case b k of
        Some (JArray xs) \<Rightarrow> map (\<lambda>j. case j of JString s \<Rightarrow> s | _ \<Rightarrow> []) xs
      | Some JNull \<Rightarrow> []
      | _ \<Rightarrow> old)"

definition unmarshalTenant :: "(string \<rightharpoonup> json) \<Rightarrow> Tenant \<Rightarrow> Tenant" where
  "unmarshalTenant b t =
     \<lparr>Tenant_DeploymentID = stringField b ''deploymentId'' (Tenant_DeploymentID t),
      Tenant_FssWorkloadEvpnID = stringField b ''fssWorkloadEvpnId'' (Tenant_FssWorkloadEvpnID t),
      Tenant_FssWorkloadEvpnName =
        stringField b ''fssWorkloadEvpnName'' (Tenant_FssWorkloadEvpnName t),
      Tenant_Name = stringField b ''name'' (Tenant_Name t),
      Tenant_FssManaged = boolField b ''fssManaged'' (Tenant_FssManaged t),
      Tenant_ID = stringField b ''id'' (Tenant_ID t),
      Tenant_Status = stringField b ''status'' (Tenant_Status t)\<rparr>"

definition unmarshalSubnet :: "(string \<rightharpoonup> json) \<Rightarrow> Subnet \<Rightarrow> Subnet" where
  "unmarshalSubnet b s =
     \<lparr>Subnet_DeploymentID = stringField b ''deploymentId'' (Subnet_DeploymentID s),
      Subnet_TenantID = stringField b ''tenantId'' (Subnet_TenantID s),
      Subnet_FssSubnetID = stringField b ''fssSubnetId'' (Subnet_FssSubnetID s),
      Subnet_FssSubnetName = stringField b ''fssSubnetName'' (Subnet_FssSubnetName s),
      Subnet_Name = stringField b ''name'' (Subnet_Name s),
      Subnet_FssManaged = boolField b ''fssManaged'' (Subnet_FssManaged s),
      Subnet_ID = stringField b ''id'' (Subnet_ID s),
      Subnet_Status = stringField b ''status'' (Subnet_Status s)\<rparr>"

definition unmarshalHostPortLabel :: "(string \<rightharpoonup> json) \<Rightarrow> HostPortLabel \<Rightarrow> HostPortLabel" where
  "unmarshalHostPortLabel b l =
     \<lparr>HostPortLabel_DeploymentID = stringField b ''deploymentId'' (HostPortLabel_DeploymentID l),
      HostPortLabel_Name = stringField b ''name'' (HostPortLabel_Name l),
      HostPortLabel_ID = stringField b ''id'' (HostPortLabel_ID l),
      HostPortLabel_Status = stringField b ''status'' (HostPortLabel_Status l)\<rparr>"

definition unmarshalSubnetAssociation ::
  "(string \<rightharpoonup> json) \<Rightarrow> SubnetAssociation \<Rightarrow> SubnetAssociation" where
  "unmarshalSubnetAssociation b a =
     \<lparr>SubnetAssociation_DeploymentID =
        stringField b ''deploymentId'' (SubnetAssociation_DeploymentID a),
      SubnetAssociation_HostPortLabelID =
        stringField b ''hostPortLabelID'' (SubnetAssociation_HostPortLabelID a),
      SubnetAssociation_SubnetID = stringField b ''subnetId'' (SubnetAssociation_SubnetID a),
      SubnetAssociation_VlanType = stringField b ''vlanType'' (SubnetAssociation_VlanType a),
      SubnetAssociation_VlanValue = stringField b ''vlanValue'' (SubnetAssociation_VlanValue a),
      SubnetAssociation_ID = stringField b ''id'' (SubnetAssociation_ID a),
      SubnetAssociation_Status = stringField b ''status'' (SubnetAssociation_Status a)\<rparr>"

definition unmarshalHostPort :: "(string \<rightharpoonup> json) \<Rightarrow> HostPort \<Rightarrow> HostPort" where
  "unmarshalHostPort b p =
     \<lparr>HostPort_DeploymentID = stringField b ''deploymentId'' (HostPort_DeploymentID p),
      HostPort_HostName = stringField b ''hostName'' (HostPort_HostName p),
      HostPort_PortName = stringField b ''portName'' (HostPort_PortName p),
      HostPort_Name = stringField b ''name'' (HostPort_Name p),
      HostPort_ID = stringField b ''id'' (HostPort_ID p),
      HostPort_MacAddress = stringField b ''macAddress'' (HostPort_MacAddress p),
      HostPort_IsLag = boolField b ''isLag'' (HostPort_IsLag p),
      HostPort_ParentHostPortID =
        stringField b ''parentHostPortId'' (HostPort_ParentHostPortID p),
      HostPort_Status = stringField b ''status'' (HostPort_Status p),
      HostPort_EdgeMapIds = stringsField b ''edgeMapIds'' (HostPort_EdgeMapIds p)\<rparr>"

definition unmarshalHostPortAssociation ::
  "(string \<rightharpoonup> json) \<Rightarrow> HostPortAssociation \<Rightarrow> HostPortAssociation" where
  "unmarshalHostPortAssociation b a =
     \<lparr>HostPortAssociation_DeploymentID =
        stringField b ''deploymentId'' (HostPortAssociation_DeploymentID a),
      HostPortAssociation_HostPortID =
        stringField b ''hostPortId'' (HostPortAssociation_HostPortID a),
      HostPortAssociation_HostPortLabelID =
        stringField b ''hostPortLabelId'' (HostPortAssociation_HostPortLabelID a),
      HostPortAssociation_ID = stringField b ''id'' (HostPortAssociation_ID a),
      HostPortAssociation_Status = stringField b ''status'' (HostPortAssociation_Status a)\<rparr>"

subsection \<open>The mirror\<close>

record Vlan =
  vlanType :: string
  vlanValue :: string

type_synonym HostPortLabelIDByVlan = "Vlan \<rightharpoonup> string"
type_synonym HostPortIDByName = "string \<rightharpoonup> string"
type_synonym HostPortAssociationIDByPort = "string \<rightharpoonup> string"

text \<open>
  The \<^verbatim>\<open>Database\<close> of the client. A Go map is a partial function; an entry of an outer map
  that is missing reads as the nil map. The eight outer maps are never nil:
  \<^verbatim>\<open>NewFssClient\<close> makes them, and \<^verbatim>\<open>encode\<close> and \<^verbatim>\<open>decode\<close> keep them so. A slice of
  \<^verbatim>\<open>attachedPorts\<close> is a list, nil when the key is missing.
\<close>

record Database =
  tenants :: "string \<rightharpoonup> Tenant"
  subnets :: "string \<rightharpoonup> Subnet"
  hostPortLabels :: "string \<rightharpoonup> HostPortLabelIDByVlan"
  attachedLabels :: "string \<rightharpoonup> HostPortLabelIDByVlan"
  hostPorts :: "string \<rightharpoonup> HostPortIDByName"
  attachedPorts :: "string \<rightharpoonup> HostPortAssociationIDByPort list"
  workloadMapping :: "string \<rightharpoonup> string"
  subnetMapping :: "string \<rightharpoonup> (string \<rightharpoonup> string)"

definition emptyDatabase :: Database where
  "emptyDatabase = \<lparr>tenants = Map.empty, subnets = Map.empty, hostPortLabels = Map.empty,
     attachedLabels = Map.empty, hostPorts = Map.empty, attachedPorts = Map.empty,
     workloadMapping = Map.empty, subnetMapping = Map.empty\<rparr>"

text \<open>Reading \<^verbatim>\<open>m[k1][k2]\<close>, \<^verbatim>\<open>delete(m[k1], k2)\<close>, \<^verbatim>\<open>len(m[k1]) == 0\<close>, and the
  assignment \<^verbatim>\<open>m[k1][k2] = v\<close>, which panics when \<^verbatim>\<open>m[k1]\<close> is the nil map.\<close>

datatype panic = AssignmentToEntryInNilMap | InterfaceConversion | SliceBoundsOutOfRange

definition lookup2 :: "('a \<rightharpoonup> ('b \<rightharpoonup> 'c)) \<Rightarrow> 'a \<Rightarrow> 'b \<Rightarrow> 'c option" where
  "lookup2 m k1 k2 = (case m k1 of None \<Rightarrow> None | Some inner \<Rightarrow> inner k2)"

definition delete2 :: "('a \<rightharpoonup> ('b \<rightharpoonup> 'c)) \<Rightarrow> 'a \<Rightarrow> 'b \<Rightarrow> ('a \<rightharpoonup> ('b \<rightharpoonup> 'c))" where
  "delete2 m k1 k2 = (case m k1 of None \<Rightarrow> m | Some inner \<Rightarrow> m(k1 \<mapsto> inner(k2 := None)))"

definition isEmpty2 :: "('a \<rightharpoonup> ('b \<rightharpoonup> 'c)) \<Rightarrow> 'a \<Rightarrow> bool" where
  "isEmpty2 m k1 = (case m k1 of None \<Rightarrow> True | Some inner \<Rightarrow> dom inner = {})"

definition assign2 ::
  "('a \<rightharpoonup> ('b \<rightharpoonup> 'c)) \<Rightarrow> 'a \<Rightarrow> 'b \<Rightarrow> 'c \<Rightarrow> panic + ('a \<rightharpoonup> ('b \<rightharpoonup> 'c))" where
  "assign2 m k1 k2 v =
     (case m k1 of
        None \<Rightarrow> Inl AssignmentToEntryInNilMap
      | Some inner \<Rightarrow> Inr (m(k1 \<mapsto> inner(k2 \<mapsto> v))))"

subsection \<open>The client and its transport\<close>

text \<open>
  Of the \<^verbatim>\<open>FssClient\<close> the engine reads the deployment and the database. The FSS server is
  the environment: a function from the requests made so far and the request at hand to the
  response, so that every behaviour of a server is one such function. \<open>requests\<close> records
  the calls of \<^verbatim>\<open>f.POST\<close> and \<^verbatim>\<open>f.DELETE\<close> in order. A response is what these methods
  return: the status code, the body, and the error of the transport (which includes that of
  the login before the request). The body of a \<^verbatim>\<open>POST\<close> is the struct that is marshalled.
\<close>

datatype payload =
    TenantPayload Tenant
  | SubnetPayload Subnet
  | HostPortLabelPayload HostPortLabel
  | SubnetAssociationPayload SubnetAssociation
  | HostPortPayload HostPort
  | HostPortAssociationPayload HostPortAssociation

datatype request = PostRequest string payload | DeleteRequest string

record Response =
  statusCode :: int
  jsonResponse :: "string \<rightharpoonup> json"
  respErr :: "error option"

type_synonym server = "request list \<Rightarrow> request \<Rightarrow> Response"

record FssClient =
  deployment :: Deployment
  database :: Database
  requests :: "request list"

definition tenantPath :: string where
  "tenantPath = ''/rest/connect/api/v1/plugins/tenants''"

definition subnetPath :: string where
  "subnetPath = ''/rest/connect/api/v1/plugins/subnets''"

definition hostPortLabelPath :: string where
  "hostPortLabelPath = ''/rest/connect/api/v1/plugins/hostportlabels''"

definition hostPortPath :: string where
  "hostPortPath = ''/rest/connect/api/v1/plugins/hostports''"

definition hostPortAssociationPath :: string where
  "hostPortAssociationPath = ''/rest/connect/api/v1/plugins/hostportlabelhostportassociations''"

definition subnetAssociationPath :: string where
  "subnetAssociationPath = ''/rest/connect/api/v1/plugins/hostportlabelsubnetassociations''"

definition POST :: "server \<Rightarrow> string \<Rightarrow> payload \<Rightarrow> FssClient \<Rightarrow> Response \<times> FssClient" where
  "POST srv path jsonReqData f =
     (srv (requests f) (PostRequest path jsonReqData),
      f\<lparr>requests := requests f @ [PostRequest path jsonReqData]\<rparr>)"

definition DELETE :: "server \<Rightarrow> string \<Rightarrow> FssClient \<Rightarrow> Response \<times> FssClient" where
  "DELETE srv path f =
     (srv (requests f) (DeleteRequest path),
      f\<lparr>requests := requests f @ [DeleteRequest path]\<rparr>)"

text \<open>The vlan key that four of the functions compute from \<^verbatim>\<open>vlanID\<close>.\<close>

definition vlanOfID :: "int \<Rightarrow> Vlan" where
  "vlanOfID vlanID =
     (if vlanID = 0 then \<lparr>vlanType = ''untagged'', vlanValue = []\<rparr>
      else \<lparr>vlanType = ''value'', vlanValue = Itoa vlanID\<rparr>)"

subsection \<open>CreateSubnetInterface\<close>

text \<open>
  The function is given in its three blocks. The first (the tenant) returns the error of an
  early return or \<^verbatim>\<open>fssWorkloadEvpnID\<close>; the second (the subnet) likewise for
  \<^verbatim>\<open>fssSubnetID\<close>, and panics when it assigns to \<^verbatim>\<open>subnetMapping[fssWorkloadEvpnID]\<close> and
  that map is nil; the third (the label) returns the results of the function.
\<close>

definition createTenantBlock :: "server \<Rightarrow> string \<Rightarrow> FssClient \<Rightarrow> (error + string) \<times> FssClient" where
  "createTenantBlock srv fssWorkloadEvpnName f =
     (case workloadMapping (database f) fssWorkloadEvpnName of
        Some fssWorkloadEvpnID \<Rightarrow> (Inr fssWorkloadEvpnID, f)
      | None \<Rightarrow>
          (let tenant = \<lparr>Tenant_DeploymentID = Deployment_ID (deployment f),
                 Tenant_FssWorkloadEvpnID = [],
                 Tenant_FssWorkloadEvpnName = fssWorkloadEvpnName,
                 Tenant_Name = ''tenant-'' @ fssWorkloadEvpnName,
                 Tenant_FssManaged = True, Tenant_ID = [], Tenant_Status = []\<rparr>;
               rf = POST srv tenantPath (TenantPayload tenant) f;
               r = fst rf; f1 = snd rf
           in if respErr r \<noteq> None then (Inl (the (respErr r)), f1)
              else if statusCode r \<noteq> 201 then (Inl (CreateTenantFailed (statusCode r)), f1)
              else
                (let tenant1 = unmarshalTenant (jsonResponse r) tenant;
                     fssWorkloadEvpnID = Tenant_FssWorkloadEvpnID tenant1;
                     db = database f1
                 in (Inr fssWorkloadEvpnID,
                     f1\<lparr>database := db
                        \<lparr>workloadMapping :=
                           (workloadMapping db)(fssWorkloadEvpnName \<mapsto> fssWorkloadEvpnID),
                         subnetMapping := (subnetMapping db)(fssWorkloadEvpnID \<mapsto> Map.empty),
                         tenants := (tenants db)(fssWorkloadEvpnID \<mapsto> tenant1)\<rparr>\<rparr>))))"

definition createSubnetBlock ::
  "server \<Rightarrow> string \<Rightarrow> string \<Rightarrow> FssClient \<Rightarrow> panic + ((error + string) \<times> FssClient)" where
  "createSubnetBlock srv fssWorkloadEvpnID fssSubnetName f =
     (case lookup2 (subnetMapping (database f)) fssWorkloadEvpnID fssSubnetName of
        Some fssSubnetID \<Rightarrow> Inr (Inr fssSubnetID, f)
      | None \<Rightarrow>
          (let subnet = \<lparr>Subnet_DeploymentID = Deployment_ID (deployment f),
                 Subnet_TenantID =
                   Tenant_ID (case tenants (database f) fssWorkloadEvpnID of
                                None \<Rightarrow> zeroTenant | Some t \<Rightarrow> t),
                 Subnet_FssSubnetID = [],
                 Subnet_FssSubnetName = fssSubnetName,
                 Subnet_Name = ''subnet-'' @ fssSubnetName,
                 Subnet_FssManaged = True, Subnet_ID = [], Subnet_Status = []\<rparr>;
               rf = POST srv subnetPath (SubnetPayload subnet) f;
               r = fst rf; f1 = snd rf
           in if respErr r \<noteq> None then Inr (Inl (the (respErr r)), f1)
              else if statusCode r \<noteq> 201 then Inr (Inl (CreateSubnetFailed (statusCode r)), f1)
              else
                (let subnet1 = unmarshalSubnet (jsonResponse r) subnet;
                     fssSubnetID = Subnet_FssSubnetID subnet1;
                     db = database f1
                 in case assign2 (subnetMapping db) fssWorkloadEvpnID fssSubnetName fssSubnetID of
                      Inl p \<Rightarrow> Inl p
                    | Inr subnetMapping1 \<Rightarrow>
                        Inr (Inr fssSubnetID,
                             f1\<lparr>database := db
                                \<lparr>subnetMapping := subnetMapping1,
                                 subnets := (subnets db)(fssSubnetID \<mapsto> subnet1),
                                 hostPortLabels := (hostPortLabels db)(fssSubnetID \<mapsto> Map.empty),
                                 attachedLabels :=
                                   (attachedLabels db)(fssSubnetID \<mapsto> Map.empty)\<rparr>\<rparr>))))"

definition createLabelBlock ::
  "server \<Rightarrow> bool \<Rightarrow> bool \<Rightarrow> string \<Rightarrow> int \<Rightarrow> FssClient \<Rightarrow>
   panic + ((string \<times> string \<times> error option) \<times> FssClient)" where
  "createLabelBlock srv ok1 ok2 fssSubnetID vlanID f =
     (let vlan = vlanOfID vlanID;
          found = lookup2 (hostPortLabels (database f)) fssSubnetID vlan;
          hostPortLabelID = (case found of None \<Rightarrow> [] | Some l \<Rightarrow> l);
          ok3 = (found \<noteq> None)
      in if ok1 \<and> ok2 \<and> ok3 then Inr ((fssSubnetID, hostPortLabelID, None), f)
         else
           (let hostPortLabel = \<lparr>HostPortLabel_DeploymentID = Deployment_ID (deployment f),
                  HostPortLabel_Name = ''label-'' @ fssSubnetID @ ''-'' @ Itoa vlanID,
                  HostPortLabel_ID = [], HostPortLabel_Status = []\<rparr>;
                rf = POST srv hostPortLabelPath (HostPortLabelPayload hostPortLabel) f;
                r = fst rf; f1 = snd rf
            in if respErr r \<noteq> None then Inr ((fssSubnetID, hostPortLabelID, respErr r), f1)
               else if statusCode r \<noteq> 201
               then Inr ((fssSubnetID, hostPortLabelID,
                          Some (CreateHostPortLabelFailed (statusCode r))), f1)
               else
                 (let hostPortLabel1 = unmarshalHostPortLabel (jsonResponse r) hostPortLabel;
                      db = database f1
                  in case assign2 (hostPortLabels db) fssSubnetID vlan
                            (HostPortLabel_ID hostPortLabel1) of
                       Inl p \<Rightarrow> Inl p
                     | Inr hostPortLabels1 \<Rightarrow>
                         Inr ((fssSubnetID, HostPortLabel_ID hostPortLabel1, None),
                              f1\<lparr>database := db\<lparr>hostPortLabels := hostPortLabels1\<rparr>\<rparr>))))"

definition CreateSubnetInterface ::
  "server \<Rightarrow> string \<Rightarrow> string \<Rightarrow> int \<Rightarrow> FssClient \<Rightarrow>
   panic + ((string \<times> string \<times> error option) \<times> FssClient)" where
  "CreateSubnetInterface srv fssWorkloadEvpnName fssSubnetName vlanID f =
     (let ok1 = (workloadMapping (database f) fssWorkloadEvpnName \<noteq> None) in
      case createTenantBlock srv fssWorkloadEvpnName f of
        (Inl e, f1) \<Rightarrow> Inr (([], [], Some e), f1)
      | (Inr fssWorkloadEvpnID, f1) \<Rightarrow>
          (let ok2 = (lookup2 (subnetMapping (database f1)) fssWorkloadEvpnID fssSubnetName \<noteq> None)
           in case createSubnetBlock srv fssWorkloadEvpnID fssSubnetName f1 of
                Inl p \<Rightarrow> Inl p
              | Inr (Inl e, f2) \<Rightarrow> Inr (([], [], Some e), f2)
              | Inr (Inr fssSubnetID, f2) \<Rightarrow> createLabelBlock srv ok1 ok2 fssSubnetID vlanID f2))"

subsection \<open>GetSubnetInterface\<close>

definition GetSubnetInterface ::
  "string \<Rightarrow> string \<Rightarrow> int \<Rightarrow> FssClient \<Rightarrow> string \<times> string \<times> string \<times> bool" where
  "GetSubnetInterface fssWorkloadEvpnName fssSubnetName vlanID f =
     (case workloadMapping (database f) fssWorkloadEvpnName of
        None \<Rightarrow> ([], [], [], False)
      | Some fssWorkloadEvpnID \<Rightarrow>
          (case lookup2 (subnetMapping (database f)) fssWorkloadEvpnID fssSubnetName of
             None \<Rightarrow> (fssWorkloadEvpnID, [], [], False)
           | Some fssSubnetID \<Rightarrow>
               (case lookup2 (hostPortLabels (database f)) fssSubnetID (vlanOfID vlanID) of
                  None \<Rightarrow> (fssWorkloadEvpnID, fssSubnetID, [], False)
                | Some hostPortLabelID \<Rightarrow>
                    (fssWorkloadEvpnID, fssSubnetID, hostPortLabelID, True))))"

subsection \<open>AttachSubnetInterface\<close>

text \<open>The \<^verbatim>\<open>SubnetAssociation\<close> that the function posts.\<close>

definition newSubnetAssociation :: "FssClient \<Rightarrow> string \<Rightarrow> int \<Rightarrow> string \<Rightarrow> SubnetAssociation" where
  "newSubnetAssociation f fssSubnetID vlanID hostPortLabelID =
     \<lparr>SubnetAssociation_DeploymentID = Deployment_ID (deployment f),
      SubnetAssociation_HostPortLabelID = hostPortLabelID,
      SubnetAssociation_SubnetID =
        Subnet_ID (case subnets (database f) fssSubnetID of None \<Rightarrow> zeroSubnet | Some s \<Rightarrow> s),
      SubnetAssociation_VlanType = vlanType (vlanOfID vlanID),
      SubnetAssociation_VlanValue = vlanValue (vlanOfID vlanID),
      SubnetAssociation_ID = [], SubnetAssociation_Status = []\<rparr>"

definition AttachSubnetInterface ::
  "server \<Rightarrow> string \<Rightarrow> int \<Rightarrow> string \<Rightarrow> FssClient \<Rightarrow> panic + (error option \<times> FssClient)" where
  "AttachSubnetInterface srv fssSubnetID vlanID hostPortLabelID f =
     (let vlan = vlanOfID vlanID in
      if lookup2 (attachedLabels (database f)) fssSubnetID vlan = Some hostPortLabelID
      then Inr (None, f)
      else
        (let subnetAssociation = newSubnetAssociation f fssSubnetID vlanID hostPortLabelID;
             rf = POST srv subnetAssociationPath (SubnetAssociationPayload subnetAssociation) f;
             r = fst rf; f1 = snd rf
         in if respErr r \<noteq> None then Inr (respErr r, f1)
            else if statusCode r \<noteq> 201
            then Inr (Some (CreateSubnetAssociationFailed (statusCode r)), f1)
            else
              (let subnetAssociation1 =
                     unmarshalSubnetAssociation (jsonResponse r) subnetAssociation;
                   db = database f1
               in case assign2 (attachedLabels db) fssSubnetID vlan
                         (SubnetAssociation_HostPortLabelID subnetAssociation1) of
                    Inl p \<Rightarrow> Inl p
                  | Inr attachedLabels1 \<Rightarrow>
                      Inr (None, f1\<lparr>database := db\<lparr>attachedLabels := attachedLabels1\<rparr>\<rparr>))))"

subsection \<open>DeleteSubnetInterface\<close>

text \<open>The local deletion of the label, and the block under
  \<^verbatim>\<open>if requestType == datatypes.DeleteDetach\<close>. The results of the two \<^verbatim>\<open>DELETE\<close> calls of
  that block are only logged.\<close>

definition localDeletion :: "string \<Rightarrow> Vlan \<Rightarrow> string \<Rightarrow> FssClient \<Rightarrow> FssClient" where
  "localDeletion fssSubnetID vlan hostPortLabelID f =
     (let db = database f in
      f\<lparr>database := db
         \<lparr>hostPortLabels := delete2 (hostPortLabels db) fssSubnetID vlan,
          attachedLabels := delete2 (attachedLabels db) fssSubnetID vlan,
          attachedPorts := (attachedPorts db)(hostPortLabelID := None)\<rparr>\<rparr>)"

definition deleteSubnetIfKnown :: "server \<Rightarrow> string \<Rightarrow> string \<Rightarrow> FssClient \<Rightarrow> FssClient" where
  "deleteSubnetIfKnown srv fssWorkloadEvpnID fssSubnetID f =
     (case subnets (database f) fssSubnetID of
        None \<Rightarrow> f
      | Some subnet \<Rightarrow>
          (let f1 = snd (DELETE srv (subnetPath @ ''/'' @ Subnet_ID subnet) f);
               db = database f1
           in f1\<lparr>database := db
                 \<lparr>subnetMapping :=
                    delete2 (subnetMapping db) fssWorkloadEvpnID (Subnet_FssSubnetName subnet),
                  subnets := (subnets db)(fssSubnetID := None),
                  hostPortLabels := (hostPortLabels db)(fssSubnetID := None),
                  attachedLabels := (attachedLabels db)(fssSubnetID := None)\<rparr>\<rparr>))"

definition deleteTenantIfKnown :: "server \<Rightarrow> string \<Rightarrow> FssClient \<Rightarrow> FssClient" where
  "deleteTenantIfKnown srv fssWorkloadEvpnID f =
     (case tenants (database f) fssWorkloadEvpnID of
        None \<Rightarrow> f
      | Some tenant \<Rightarrow>
          (let f1 = snd (DELETE srv (tenantPath @ ''/'' @ Tenant_ID tenant) f);
               db = database f1
           in f1\<lparr>database := db
                 \<lparr>workloadMapping :=
                    (workloadMapping db)(Tenant_FssWorkloadEvpnName tenant := None),
                  subnetMapping := (subnetMapping db)(fssWorkloadEvpnID := None),
                  tenants := (tenants db)(fssWorkloadEvpnID := None)\<rparr>\<rparr>))"

definition upwardCollapse :: "server \<Rightarrow> string \<Rightarrow> string \<Rightarrow> NadAction \<Rightarrow> FssClient \<Rightarrow> FssClient" where
  "upwardCollapse srv fssWorkloadEvpnID fssSubnetID requestType f =
     (if requestType = DeleteDetach then
        (if isEmpty2 (attachedLabels (database f)) fssSubnetID then
           (let f1 = deleteSubnetIfKnown srv fssWorkloadEvpnID fssSubnetID f in
            if isEmpty2 (subnetMapping (database f1)) fssWorkloadEvpnID
            then deleteTenantIfKnown srv fssWorkloadEvpnID f1
            else f1)
         else f)
      else f)"

definition DeleteSubnetInterface ::
  "server \<Rightarrow> string \<Rightarrow> string \<Rightarrow> int \<Rightarrow> string \<Rightarrow> NadAction \<Rightarrow> FssClient \<Rightarrow>
   error option \<times> FssClient" where
  "DeleteSubnetInterface srv fssWorkloadEvpnID fssSubnetID vlanID hostPortLabelID requestType f =
     (let vlan = vlanOfID vlanID in
      if lookup2 (attachedLabels (database f)) fssSubnetID vlan = Some hostPortLabelID then
        (let rf = DELETE srv (hostPortLabelPath @ ''/'' @ hostPortLabelID) f;
             r = fst rf; f1 = snd rf
         in if respErr r \<noteq> None then (respErr r, f1)
            else
              (let result = (if statusCode r \<noteq> 204
                             then Some (DeleteHostPortLabelFailed (statusCode r)) else None)
               in (result,
                   upwardCollapse srv fssWorkloadEvpnID fssSubnetID requestType
                     (localDeletion fssSubnetID vlan hostPortLabelID f1))))
      else
        (None,
         upwardCollapse srv fssWorkloadEvpnID fssSubnetID requestType
           (localDeletion fssSubnetID vlan hostPortLabelID f)))"

subsection \<open>Host ports\<close>

text \<open>\<^verbatim>\<open>port["name"].(string)\<close>: the type assertion panics unless the member is a string.\<close>

definition stringMember :: "JSONNic \<Rightarrow> string \<Rightarrow> panic + string" where
  "stringMember port k = (case port k of Some (JString s) \<Rightarrow> Inr s | _ \<Rightarrow> Inl InterfaceConversion)"

definition GetHostPort :: "string \<Rightarrow> string \<Rightarrow> FssClient \<Rightarrow> (string \<times> bool) \<times> FssClient" where
  "GetHostPort node port f =
     (let db = database f;
          f1 = (case hostPorts db node of
                  None \<Rightarrow> f\<lparr>database := db\<lparr>hostPorts := (hostPorts db)(node \<mapsto> Map.empty)\<rparr>\<rparr>
                | Some _ \<Rightarrow> f)
      in case lookup2 (hostPorts (database f1)) node port of
           None \<Rightarrow> (([], False), f1)
         | Some hostPortID \<Rightarrow> ((hostPortID, True), f1))"

definition CreateHostPort ::
  "server \<Rightarrow> string \<Rightarrow> JSONNic \<Rightarrow> bool \<Rightarrow> string \<Rightarrow> FssClient \<Rightarrow>
   panic + ((string \<times> error option) \<times> FssClient)" where
  "CreateHostPort srv node port isLag parentHostPortID f =
     (case stringMember port ''name'' of
        Inl p \<Rightarrow> Inl p
      | Inr portName \<Rightarrow>
          (let g = GetHostPort node portName f; f1 = snd g in
           if snd (fst g) then Inr ((fst (fst g), None), f1)
           else
             (case stringMember port ''mac-address'' of
                Inl p \<Rightarrow> Inl p
              | Inr mac \<Rightarrow>
                  (let hostPort = \<lparr>HostPort_DeploymentID = Deployment_ID (deployment f1),
                         HostPort_HostName = node, HostPort_PortName = portName,
                         HostPort_Name = [], HostPort_ID = [], HostPort_MacAddress = mac,
                         HostPort_IsLag = isLag, HostPort_ParentHostPortID = parentHostPortID,
                         HostPort_Status = [], HostPort_EdgeMapIds = []\<rparr>;
                       rf = POST srv hostPortPath (HostPortPayload hostPort) f1;
                       r = fst rf; f2 = snd rf
                   in if respErr r \<noteq> None then Inr (([], respErr r), f2)
                      else if statusCode r \<noteq> 201
                      then Inr (([], Some (CreateHostPortFailed (statusCode r))), f2)
                      else
                        (let hostPort1 = unmarshalHostPort (jsonResponse r) hostPort;
                             hostPortID = HostPort_ID hostPort1;
                             db = database f2
                         in case assign2 (hostPorts db) node portName hostPortID of
                              Inl p \<Rightarrow> Inl p
                            | Inr hostPorts1 \<Rightarrow>
                                Inr ((hostPortID, None),
                                     f2\<lparr>database := db\<lparr>hostPorts := hostPorts1\<rparr>\<rparr>))))))"

text \<open>A missing key of \<^verbatim>\<open>attachedPorts\<close> reads as the nil slice, over which a loop does not
  run and to which \<^verbatim>\<open>append\<close> adds the first element.\<close>

definition portsOf :: "Database \<Rightarrow> string \<Rightarrow> HostPortAssociationIDByPort list" where
  "portsOf db hostPortLabelID = (case attachedPorts db hostPortLabelID of None \<Rightarrow> [] | Some l \<Rightarrow> l)"

definition AttachHostPort ::
  "server \<Rightarrow> string \<Rightarrow> string \<Rightarrow> JSONNic \<Rightarrow> FssClient \<Rightarrow> panic + (error option \<times> FssClient)" where
  "AttachHostPort srv hostPortLabelID node port f =
     (case stringMember port ''name'' of
        Inl p \<Rightarrow> Inl p
      | Inr portName \<Rightarrow>
          (let g = GetHostPort node portName f; f1 = snd g; hostPortID = fst (fst g) in
           if \<not> snd (fst g) then Inr (Some HostPortNotExist, f1)
           else if list_ex (\<lambda>v. v hostPortID \<noteq> None) (portsOf (database f1) hostPortLabelID)
           then Inr (None, f1)
           else
             (let hostPortAssociation =
                    \<lparr>HostPortAssociation_DeploymentID = Deployment_ID (deployment f1),
                     HostPortAssociation_HostPortID = hostPortID,
                     HostPortAssociation_HostPortLabelID = hostPortLabelID,
                     HostPortAssociation_ID = [], HostPortAssociation_Status = []\<rparr>;
                  rf = POST srv hostPortAssociationPath
                         (HostPortAssociationPayload hostPortAssociation) f1;
                  r = fst rf; f2 = snd rf
              in if respErr r \<noteq> None then Inr (respErr r, f2)
                 else if statusCode r \<noteq> 201
                 then Inr (Some (CreateHostPortAssociationFailed (statusCode r)), f2)
                 else
                   (let hostPortAssociation1 =
                          unmarshalHostPortAssociation (jsonResponse r) hostPortAssociation;
                        portAssociation =
                          [hostPortID \<mapsto> HostPortAssociation_ID hostPortAssociation1];
                        db = database f2
                    in Inr (None,
                            f2\<lparr>database := db
                               \<lparr>attachedPorts := (attachedPorts db)
                                  (hostPortLabelID \<mapsto>
                                     portsOf db hostPortLabelID @ [portAssociation])\<rparr>\<rparr>)))))"

text \<open>
  The loop of \<^verbatim>\<open>DetachHostPort\<close> ranges over the slice as it was when the loop began,
  while each removal \<^verbatim>\<open>append(s[:k], s[k+1:]...)\<close> shifts the elements of the same backing
  array to the left and stores a slice that is shorter by one. The state of the loop is the
  backing array \<open>arr\<close> (as long as the slice was at the start), the length \<open>cur\<close> of the
  slice now stored in the database, the error to return, and the client. The expression
  \<^verbatim>\<open>s[k+1:]\<close> panics when \<open>k + 1\<close> is above the length of the stored slice.
\<close>

fun DetachHostPort_loop ::
  "server \<Rightarrow> string \<Rightarrow> nat list \<Rightarrow>
   HostPortAssociationIDByPort list \<times> nat \<times> error option \<times> FssClient \<Rightarrow>
   panic + (HostPortAssociationIDByPort list \<times> nat \<times> error option \<times> FssClient)" where
  "DetachHostPort_loop srv hostPortID [] st = Inr st"
| "DetachHostPort_loop srv hostPortID (k # ks) (arr, cur, result, f) =
     (case (arr ! k) hostPortID of
        None \<Rightarrow> DetachHostPort_loop srv hostPortID ks (arr, cur, result, f)
      | Some hostPortAssociationID \<Rightarrow>
          (let rf = DELETE srv (hostPortAssociationPath @ ''/'' @ hostPortAssociationID) f;
               r = fst rf; f1 = snd rf;
               result1 = (if respErr r \<noteq> None then respErr r else result);
               result2 = (if statusCode r \<noteq> 204
                          then Some (DeleteHostPortAssociationFailed (statusCode r))
                          else result1)
           in if k + 1 > cur then Inl SliceBoundsOutOfRange
              else DetachHostPort_loop srv hostPortID ks
                     (take k arr @ drop (k + 1) (take cur arr) @ drop (cur - 1) arr,
                      cur - 1, result2, f1)))"

definition DetachHostPort ::
  "server \<Rightarrow> string \<Rightarrow> string \<Rightarrow> JSONNic \<Rightarrow> FssClient \<Rightarrow> panic + (error option \<times> FssClient)" where
  "DetachHostPort srv hostPortLabelID node port f =
     (case stringMember port ''name'' of
        Inl p \<Rightarrow> Inl p
      | Inr portName \<Rightarrow>
          (case lookup2 (hostPorts (database f)) node portName of
             None \<Rightarrow> Inr (None, f)
           | Some hostPortID \<Rightarrow>
               (let s = portsOf (database f) hostPortLabelID in
                case DetachHostPort_loop srv hostPortID [0..<length s] (s, length s, None, f) of
                  Inl p \<Rightarrow> Inl p
                | Inr (arr, cur, result, f1) \<Rightarrow>
                    if cur = length s then Inr (result, f1)
                    else
                      (let db = database f1 in
                       Inr (result,
                            f1\<lparr>database := db
                               \<lparr>attachedPorts :=
                                  (attachedPorts db)(hostPortLabelID \<mapsto> take cur arr)\<rparr>\<rparr>)))))"

subsection \<open>Sequences of operations\<close>

text \<open>The six operations of the engine that change the mirror, as values, and what it is for
  a sequence of them to succeed: every operation returns, with no error.\<close>

datatype operation =
    OpCreateSubnetInterface string string int
  | OpAttachSubnetInterface string int string
  | OpDeleteSubnetInterface string string int string NadAction
  | OpCreateHostPort string JSONNic bool string
  | OpAttachHostPort string string JSONNic
  | OpDetachHostPort string string JSONNic

fun succeeded :: "panic + (error option \<times> FssClient) \<Rightarrow> FssClient option" where
  "succeeded (Inr (None, f)) = Some f"
| "succeeded _ = None"

fun perform :: "server \<Rightarrow> operation \<Rightarrow> FssClient \<Rightarrow> FssClient option" where
  "perform srv (OpCreateSubnetInterface w s v) f =
     (case CreateSubnetInterface srv w s v f of
        Inr ((_, _, None), f1) \<Rightarrow> Some f1
      | _ \<Rightarrow> None)"
| "perform srv (OpAttachSubnetInterface sid v l) f = succeeded (AttachSubnetInterface srv sid v l f)"
| "perform srv (OpDeleteSubnetInterface wid sid v l t) f =
     succeeded (Inr (DeleteSubnetInterface srv wid sid v l t f))"
| "perform srv (OpCreateHostPort node port isLag parent) f =
     (case CreateHostPort srv node port isLag parent f of
        Inr ((_, None), f1) \<Rightarrow> Some f1
      | _ \<Rightarrow> None)"
| "perform srv (OpAttachHostPort l node port) f = succeeded (AttachHostPort srv l node port f)"
| "perform srv (OpDetachHostPort l node port) f = succeeded (DetachHostPort srv l node port f)"

fun run :: "server \<Rightarrow> operation list \<Rightarrow> FssClient \<Rightarrow> FssClient option" where
  "run srv [] f = Some f"
| "run srv (op # ops) f = (case perform srv op f of None \<Rightarrow> None | Some f1 \<Rightarrow> run srv ops f1)"

section \<open>Notions used to state the properties\<close>

subsection \<open>Elements of a vlan trunk\<close>

text \<open>An element of the comma-separated list is rejected by the loop of \<^verbatim>\<open>GetVlanIds\<close> when
  it contains a minus and does not split into two parts whose first, as \<^verbatim>\<open>Atoi\<close> reads it,
  is neither 0 nor above the second; an element that is not rejected contributes
  \<open>elementVlans\<close>.\<close>

definition elementRejected :: "string \<Rightarrow> bool" where
  "elementRejected v =
     (CHR ''-'' \<in> set v \<and>
      (length (Split v (CHR ''-'')) \<noteq> 2 \<or>
       fst (Atoi (Split v (CHR ''-'') ! 0)) = 0 \<or>
       fst (Atoi (Split v (CHR ''-'') ! 0)) > fst (Atoi (Split v (CHR ''-'') ! 1))))"

definition elementVlans :: "string \<Rightarrow> int list" where
  "elementVlans v =
     (if CHR ''-'' \<in> set v
      then [fst (Atoi (Split v (CHR ''-'') ! 0)) .. fst (Atoi (Split v (CHR ''-'') ! 1))]
      else [fst (Atoi v)])"

text \<open>The numbers an element denotes, read as decimal numerals: a single number \<open>d\<close>, or a
  range \<open>a-b\<close> with \<open>1 \<le> a \<le> b\<close>; \<open>elementInRange\<close> asks in addition that the numbers fit
  a Go \<^verbatim>\<open>int\<close>.\<close>

definition elementInRange :: "string \<Rightarrow> bool" where
  "elementInRange v =
     (case Split v (CHR ''-'') of
        [d] \<Rightarrow> decimal d \<le> maxInt64
      | [a, b] \<Rightarrow> 1 \<le> decimal a \<and> decimal a \<le> decimal b \<and> decimal b \<le> maxInt64
      | _ \<Rightarrow> False)"

definition elementNumbers :: "string \<Rightarrow> int list" where
  "elementNumbers v =
     (case Split v (CHR ''-'') of
        [d] \<Rightarrow> [decimal d]
      | [a, b] \<Rightarrow> [decimal a .. decimal b]
      | _ \<Rightarrow> [])"

subsection \<open>Eligible NADs and well-formed overlays\<close>

text \<open>A NAD is eligible when \<^verbatim>\<open>ShouldTriggerTopoAction\<close> returns \<^verbatim>\<open>true\<close> for it.\<close>

definition eligible ::
  "(string \<Rightarrow> NetConf option) \<Rightarrow> (string \<Rightarrow> (string \<rightharpoonup> string) list option) \<Rightarrow>
   NetworkAttachmentDefinition \<Rightarrow> bool" where
  "eligible getNetConf unmarshalOverlays nad =
     fst (snd (ShouldTriggerTopoAction getNetConf unmarshalOverlays nad))"

text \<open>An overlay that the loop over the overlays lets through, and the range it gives.\<close>

definition overlayWellFormed :: "(string \<rightharpoonup> string) \<Rightarrow> bool" where
  "overlayWellFormed overlay =
     (overlay ''extProjectName'' \<noteq> None \<and> overlay ''extNetworkName'' \<noteq> None \<and>
      (case overlay ''vlanRange'' of
         None \<Rightarrow> False
       | Some vlanRange \<Rightarrow> snd (GetVlanIds vlanRange) = None))"

definition overlayRange :: "(string \<rightharpoonup> string) \<Rightarrow> string" where
  "overlayRange overlay = valueOrEmpty overlay ''vlanRange''"

text \<open>The \<^verbatim>\<open>NetConf\<close> that \<^verbatim>\<open>ShouldTriggerTopoAction\<close> reads from a NAD.\<close>

definition netConfOf ::
  "(string \<Rightarrow> NetConf option) \<Rightarrow> (string \<Rightarrow> (string \<rightharpoonup> string) list option) \<Rightarrow>
   NetworkAttachmentDefinition \<Rightarrow> NetConf" where
  "netConfOf getNetConf unmarshalOverlays nad =
     fst (ShouldTriggerTopoAction getNetConf unmarshalOverlays nad)"

subsection \<open>Example NADs\<close>

text \<open>
  A decoder of CNI configurations and a decoder of overlay annotations for the examples:
  the strings stand for JSON texts, and the decoders give what \<^verbatim>\<open>GetNetConf\<close> and
  \<^verbatim>\<open>json.Unmarshal\<close> give for them. The configuration \<open>sriov:T\<close> is an SR-IOV
  configuration with \<^verbatim>\<open>vlan_trunk\<close> \<open>T\<close>; \<open>sriov-vlan\<close> is one with an empty trunk and
  vlan 7; \<open>ipvlan\<close> is an IPVLAN configuration on \<^verbatim>\<open>tenant-bond\<close> with vlan 100. The
  annotation \<open>R1;R2\<close> is a list of overlays, one for each range.
\<close>

definition exampleGetNetConf :: "string \<Rightarrow> NetConf option" where
  "exampleGetNetConf c =
     (if take 6 c = ''sriov:''
      then Some \<lparr>Type = ''sriov'', Master = [], Vlan = 0, VlanTrunk = drop 6 c\<rparr>
      else if c = ''sriov-vlan''
      then Some \<lparr>Type = ''sriov'', Master = [], Vlan = 7, VlanTrunk = []\<rparr>
      else if c = ''ipvlan''
      then Some \<lparr>Type = ''ipvlan'', Master = ''tenant-bond'', Vlan = 100, VlanTrunk = []\<rparr>
      else None)"

definition exampleOverlay :: "string \<Rightarrow> (string \<rightharpoonup> string)" where
  "exampleOverlay r =
     [''extProjectName'' \<mapsto> ''projA'', ''extNetworkName'' \<mapsto> ''netX'', ''vlanRange'' \<mapsto> r]"

definition exampleUnmarshalOverlays :: "string \<Rightarrow> (string \<rightharpoonup> string) list option" where
  "exampleUnmarshalOverlays j = Some (map exampleOverlay (Split j (CHR '';'')))"

definition exampleNad :: "string \<Rightarrow> (string \<times> string) list \<Rightarrow> NetworkAttachmentDefinition" where
  "exampleNad c annotations = \<lparr>Config = c, Annotations = map_of annotations\<rparr>"


section \<open>Properties of GetVlanIds\<close>

subsection \<open>Splitting\<close>


lemma Split_not_Nil: "Split s c \<noteq> []"
  by (induction s) (auto split: list.splits)

lemma Split_no_sep: "c \<notin> set s \<Longrightarrow> Split s c = [s]"
  by (induction s) auto

lemma Split_has_sep: "c \<in> set s \<Longrightarrow> 2 \<le> length (Split s c)"
proof (induction s)
  case Nil
  then show ?case by simp
next
  case (Cons x xs)
  show ?case
  proof (cases "x = c")
    case True
    then show ?thesis using Split_not_Nil [of xs c] by (cases "Split xs c") auto
  next
    case False
    with Cons have "2 \<le> length (Split xs c)" by simp
    with False show ?thesis by (cases "Split xs c") auto
  qed
qed

lemma Split_pieces: "x \<in> set (Split s c) \<Longrightarrow> set x \<subseteq> set s - {c}"
proof (induction s arbitrary: x)
  case Nil
  then show ?case by simp
next
  case (Cons y ys)
  show ?case
  proof (cases "y = c")
    case True
    with Cons show ?thesis by auto
  next
    case False
    obtain p ps where sp: "Split ys c = p # ps"
      using Split_not_Nil [of ys c] by (cases "Split ys c") auto
    with False Cons.prems have "x = y # p \<or> x \<in> set ps" by auto
    then show ?thesis
    proof
      assume "x = y # p"
      moreover have "set p \<subseteq> set ys - {c}" using Cons.IH [of p] sp by simp
      ultimately show ?thesis using False by auto
    next
      assume "x \<in> set ps"
      then have "set x \<subseteq> set ys - {c}" using Cons.IH [of x] sp by simp
      then show ?thesis by auto
    qed
  qed
qed



lemma count_loop_upto: "lo \<le> hi \<Longrightarrow> map (\<lambda>i. lo + int i) [0..<nat (hi - lo + 1)] = [lo..hi]"
proof (induction "nat (hi - lo)" arbitrary: hi)
  case 0
  then have "hi = lo" by simp
  then show ?case by simp
next
  case (Suc k)
  then have lt: "lo \<le> hi - 1" and k: "k = nat (hi - 1 - lo)" by auto
  have n: "nat (hi - lo + 1) = Suc (nat (hi - 1 - lo + 1))" using lt by auto
  have "[lo..hi] = [lo..hi - 1] @ [hi]" using lt upto_rec2 [of lo hi] by simp
  moreover have "lo + int (nat (hi - 1 - lo + 1)) = hi" using lt by auto
  ultimately show ?case using Suc.hyps(1) [OF k lt] by (simp add: n)
qed

lemma GetVlanIds_loop_error:
  "snd (GetVlanIds_loop m r) =
     (if \<exists>v\<in>set m. elementRejected v then Some TrunkFormatInvalid else None)"
  by (induction m arbitrary: r) (auto simp: elementRejected_def Let_def)

lemma GetVlanIds_loop_result:
  "\<forall>v\<in>set m. \<not> elementRejected v \<Longrightarrow>
   fst (GetVlanIds_loop m r) = r @ concat (map elementVlans m)"
proof (induction m arbitrary: r)
  case Nil
  then show ?case by simp
next
  case (Cons v m)
  then have ok: "\<not> elementRejected v" and rest: "\<forall>v\<in>set m. \<not> elementRejected v" by auto
  show ?case
  proof (cases "CHR ''-'' \<in> set v")
    case True
    with ok have len: "length (Split v (CHR ''-'')) = 2"
      and lohi: "fst (Atoi (Split v (CHR ''-'') ! 0)) \<le> fst (Atoi (Split v (CHR ''-'') ! 1))"
      and nz: "fst (Atoi (Split v (CHR ''-'') ! 0)) \<noteq> 0"
      by (auto simp: elementRejected_def)
    show ?thesis using True len lohi nz Cons.IH [OF rest]
      by (simp add: Let_def elementVlans_def count_loop_upto)
  next
    case False
    then show ?thesis using Cons.IH [OF rest] by (simp add: elementVlans_def)
  qed
qed

subsection \<open>Reading decimal numerals\<close>


lemma isDigit_not_sign: "isDigit c \<Longrightarrow> c \<noteq> CHR ''-'' \<and> c \<noteq> CHR ''+'' \<and> c \<noteq> CHR '',''"
  by (auto simp: isDigit_def)

lemma digitVal_range: "isDigit c \<Longrightarrow> 0 \<le> digitVal c \<and> digitVal c \<le> 9"
  by (auto simp: isDigit_def digitVal_def)

lemma decimal_acc_ge:
  "list_all isDigit cs \<Longrightarrow> 0 \<le> n \<Longrightarrow> n \<le> foldl (\<lambda>a c. a * 10 + digitVal c) n cs"
proof (induction cs arbitrary: n)
  case Nil
  then show ?case by simp
next
  case (Cons c cs)
  then have d: "0 \<le> digitVal c" using digitVal_range by simp
  have "n \<le> n * 10 + digitVal c" using d Cons.prems(2) by simp
  also have "\<dots> \<le> foldl (\<lambda>a c. a * 10 + digitVal c) (n * 10 + digitVal c) cs"
    using Cons.IH [of "n * 10 + digitVal c"] Cons.prems d by simp
  finally show ?case by simp
qed

lemma ParseUint_loop_digits:
  "list_all isDigit cs \<Longrightarrow> 0 \<le> n \<Longrightarrow>
   foldl (\<lambda>a c. a * 10 + digitVal c) n cs \<le> maxInt64 \<Longrightarrow>
   ParseUint_loop cs n = (foldl (\<lambda>a c. a * 10 + digitVal c) n cs, None)"
proof (induction cs arbitrary: n)
  case Nil
  then show ?case by simp
next
  case (Cons c cs)
  let ?n1 = "n * 10 + digitVal c"
  have dig: "isDigit c" and rest: "list_all isDigit cs" using Cons.prems(1) by simp_all
  have d: "0 \<le> digitVal c" using digitVal_range [OF dig] by simp
  have n1: "0 \<le> ?n1" using d Cons.prems(2) by simp
  have "?n1 \<le> foldl (\<lambda>a c. a * 10 + digitVal c) ?n1 cs"
    using decimal_acc_ge [OF rest n1] .
  then have le: "?n1 \<le> maxInt64" using Cons.prems(3) by simp
  then have small: "n < maxUint64 div 10 + 1" "\<not> ?n1 > maxUint64"
    using d by (simp_all add: maxInt64_def maxUint64_def)
  have "ParseUint_loop cs ?n1 = (foldl (\<lambda>a c. a * 10 + digitVal c) ?n1 cs, None)"
    using Cons.IH [OF rest n1] Cons.prems(3) by simp
  then show ?case using dig small by (simp add: Let_def)
qed

lemma decimal_nonneg: "list_all isDigit v \<Longrightarrow> 0 \<le> decimal v"
  unfolding decimal_def using decimal_acc_ge [of v 0] by simp

lemma Atoi_digits:
  assumes "list_all isDigit v" "decimal v \<le> maxInt64"
  shows "fst (Atoi v) = decimal v"
proof (cases v)
  case Nil
  then show ?thesis by (simp add: Atoi_def ParseInt_def decimal_def)
next
  case (Cons c cs)
  then have "isDigit c" using assms(1) by simp
  then have ns: "c \<noteq> CHR ''-''" "c \<noteq> CHR ''+''" using isDigit_not_sign by auto
  have "ParseUint_loop v 0 = (decimal v, None)"
    using ParseUint_loop_digits [of v 0] assms by (simp add: decimal_def)
  then show ?thesis using Cons ns assms(2)
    by (simp add: Atoi_def ParseInt_def ParseUint_def Let_def)
qed



lemma element_accepted:
  assumes chars: "list_all (\<lambda>c. isDigit c \<or> c = CHR ''-'') v" and ok: "elementInRange v"
  shows "\<not> elementRejected v \<and> elementVlans v = elementNumbers v"
proof (cases "CHR ''-'' \<in> set v")
  case False
  then have sp: "Split v (CHR ''-'') = [v]" by (rule Split_no_sep)
  have dig: "list_all isDigit v" using chars False by (auto simp: list_all_iff)
  have "decimal v \<le> maxInt64" using ok sp by (simp add: elementInRange_def)
  then have "fst (Atoi v) = decimal v" using Atoi_digits dig by simp
  then show ?thesis using False sp by (simp add: elementRejected_def elementVlans_def elementNumbers_def)
next
  case True
  then have "2 \<le> length (Split v (CHR ''-''))" by (rule Split_has_sep)
  then obtain a b where sp: "Split v (CHR ''-'') = [a, b]"
    and rng: "1 \<le> decimal a" "decimal a \<le> decimal b" "decimal b \<le> maxInt64"
    using ok by (auto simp: elementInRange_def split: list.splits)
  have "set a \<subseteq> set v - {CHR ''-''}" "set b \<subseteq> set v - {CHR ''-''}"
    using Split_pieces [of a v "CHR ''-''"] Split_pieces [of b v "CHR ''-''"] sp by simp_all
  then have dig: "list_all isDigit a" "list_all isDigit b"
    using chars by (auto simp: list_all_iff)
  have "fst (Atoi a) = decimal a" "fst (Atoi b) = decimal b"
    using Atoi_digits dig rng by simp_all
  then show ?thesis using True sp rng
    by (simp add: elementRejected_def elementVlans_def elementNumbers_def)
qed

lemma GetVlanIds_accepts:
  assumes pat: "matchesTrunkPattern s"
    and ok: "\<forall>v\<in>set (Split s (CHR '','')). elementInRange v"
  shows "GetVlanIds s = (concat (map elementNumbers (Split s (CHR '',''))), None)"
proof -
  have each: "\<not> elementRejected v \<and> elementVlans v = elementNumbers v"
    if "v \<in> set (Split s (CHR '',''))" for v
  proof -
    have "set v \<subseteq> set s - {CHR '',''}" using that by (rule Split_pieces)
    then have "list_all (\<lambda>c. isDigit c \<or> c = CHR ''-'') v"
      using pat by (auto simp: matchesTrunkPattern_def list_all_iff)
    then show ?thesis using ok that element_accepted by simp
  qed
  then have noerr: "\<forall>v\<in>set (Split s (CHR '','')). \<not> elementRejected v" by simp
  have eq: "map elementVlans (Split s (CHR '','')) = map elementNumbers (Split s (CHR '',''))"
    using each by simp
  have "fst (GetVlanIds_loop (Split s (CHR '','')) []) = concat (map elementVlans (Split s (CHR '','')))"
    using GetVlanIds_loop_result [OF noerr, of "[]"] by simp
  then have "fst (GetVlanIds_loop (Split s (CHR '','')) []) = concat (map elementNumbers (Split s (CHR '','')))"
    unfolding eq .
  moreover have "snd (GetVlanIds_loop (Split s (CHR '','')) []) = None"
    using GetVlanIds_loop_error [of "Split s (CHR '','')" "[]"] noerr by simp
  ultimately show ?thesis using pat by (simp add: GetVlanIds_def prod_eq_iff)
qed

subsection \<open>What GetVlanIds accepts and rejects\<close>

text \<open>
  Claim C5. \<^verbatim>\<open>GetVlanIds\<close> maps \<^verbatim>\<open>"50,51,700-710"\<close> to the list 50, 51, 700, ..., 710. It
  returns an error for every string that does not match the pattern, for every string one of
  whose comma-separated elements contains a minus and does not split at the minus into exactly
  two parts, and for every string with a range \<open>lo-hi\<close> whose minimum is 0 or exceeds its
  maximum (minimum and maximum as the function reads them with \<^verbatim>\<open>Atoi\<close>). The single element
  \<^verbatim>\<open>"0"\<close> is accepted and gives the vlan 0.
\<close>

theorem GetVlanIds_parses_and_rejects:
  "GetVlanIds ''50,51,700-710'' =
     ([50, 51, 700, 701, 702, 703, 704, 705, 706, 707, 708, 709, 710], None)
   \<and> (\<not> matchesTrunkPattern s \<longrightarrow> snd (GetVlanIds s) = Some TrunkFormatInvalid)
   \<and> (v \<in> set (Split s (CHR '','')) \<and> CHR ''-'' \<in> set v \<and> length (Split v (CHR ''-'')) \<noteq> 2
        \<longrightarrow> snd (GetVlanIds s) = Some TrunkFormatInvalid)
   \<and> (v \<in> set (Split s (CHR '','')) \<and> Split v (CHR ''-'') = [lo, hi] \<and>
        (fst (Atoi lo) = 0 \<or> fst (Atoi lo) > fst (Atoi hi))
        \<longrightarrow> snd (GetVlanIds s) = Some TrunkFormatInvalid)
   \<and> GetVlanIds ''0'' = ([0], None)"
proof (intro conjI impI)
  show "GetVlanIds ''50,51,700-710'' =
     ([50, 51, 700, 701, 702, 703, 704, 705, 706, 707, 708, 709, 710], None)"
    by code_simp
  show "GetVlanIds ''0'' = ([0], None)" by code_simp
  show "snd (GetVlanIds s) = Some TrunkFormatInvalid" if "\<not> matchesTrunkPattern s"
    using that by (simp add: GetVlanIds_def)
  show "snd (GetVlanIds s) = Some TrunkFormatInvalid"
    if "v \<in> set (Split s (CHR '','')) \<and> CHR ''-'' \<in> set v \<and> length (Split v (CHR ''-'')) \<noteq> 2"
  proof -
    have "elementRejected v" using that by (simp add: elementRejected_def)
    then have "\<exists>v\<in>set (Split s (CHR '','')). elementRejected v" using that by blast
    then show ?thesis by (simp add: GetVlanIds_def GetVlanIds_loop_error)
  qed
  show "snd (GetVlanIds s) = Some TrunkFormatInvalid"
    if h: "v \<in> set (Split s (CHR '','')) \<and> Split v (CHR ''-'') = [lo, hi] \<and>
        (fst (Atoi lo) = 0 \<or> fst (Atoi lo) > fst (Atoi hi))"
  proof -
    have "CHR ''-'' \<in> set v"
    proof (rule ccontr)
      assume "CHR ''-'' \<notin> set v"
      then have "Split v (CHR ''-'') = [v]" by (rule Split_no_sep)
      with h show False by simp
    qed
    then have "elementRejected v" using h by (auto simp: elementRejected_def)
    then have "\<exists>v\<in>set (Split s (CHR '','')). elementRejected v" using h by blast
    then show ?thesis by (simp add: GetVlanIds_def GetVlanIds_loop_error)
  qed
qed

theorem GetVlanIds_parses_and_rejects_witness:
  "snd (GetVlanIds ''50,x'') = Some TrunkFormatInvalid
   \<and> snd (GetVlanIds ''7,1-2-3'') = Some TrunkFormatInvalid
   \<and> snd (GetVlanIds ''0-10,5'') = Some TrunkFormatInvalid
   \<and> snd (GetVlanIds ''4,9-3'') = Some TrunkFormatInvalid"
proof -
  have a: "\<not> matchesTrunkPattern ''50,x''" by code_simp
  have b: "''1-2-3'' \<in> set (Split ''7,1-2-3'' (CHR '','')) \<and> CHR ''-'' \<in> set ''1-2-3''
      \<and> length (Split ''1-2-3'' (CHR ''-'')) \<noteq> 2" by code_simp
  have c: "''0-10'' \<in> set (Split ''0-10,5'' (CHR '','')) \<and> Split ''0-10'' (CHR ''-'') = [''0'', ''10'']
      \<and> (fst (Atoi ''0'') = 0 \<or> fst (Atoi ''0'') > fst (Atoi ''10''))" by code_simp
  have d: "''9-3'' \<in> set (Split ''4,9-3'' (CHR '','')) \<and> Split ''9-3'' (CHR ''-'') = [''9'', ''3'']
      \<and> (fst (Atoi ''9'') = 0 \<or> fst (Atoi ''9'') > fst (Atoi ''3''))" by code_simp
  show ?thesis
    using a b c d
      GetVlanIds_parses_and_rejects [where s = "''50,x''"]
      GetVlanIds_parses_and_rejects [where s = "''7,1-2-3''" and v = "''1-2-3''"]
      GetVlanIds_parses_and_rejects [where s = "''0-10,5''" and v = "''0-10''" and lo = "''0''" and hi = "''10''"]
      GetVlanIds_parses_and_rejects [where s = "''4,9-3''" and v = "''9-3''" and lo = "''9''" and hi = "''3''"]
    by blast
qed

text \<open>
  Claim C9, as amended. \<^verbatim>\<open>GetVlanIds\<close> has no upper bound on vlan values other than the range
  of the Go \<^verbatim>\<open>int\<close>: for every string that matches the pattern and whose elements are decimal
  numbers of at most \<open>2^63 - 1\<close> or ranges \<open>a-b\<close> with \<open>1 \<le> a \<le> b \<le> 2^63 - 1\<close>, it
  succeeds and returns, element after element, the numbers written (so a number or a range
  above 4095 is returned as it stands); and for the empty string it succeeds and returns the
  one vlan 0.
\<close>

theorem GetVlanIds_bounded_by_int_only:
  "(matchesTrunkPattern s \<and> (\<forall>v\<in>set (Split s (CHR '','')). elementInRange v)
      \<longrightarrow> GetVlanIds s = (concat (map elementNumbers (Split s (CHR '',''))), None))
   \<and> GetVlanIds [] = ([0], None)"
proof (intro conjI impI)
  show "GetVlanIds [] = ([0], None)" by code_simp
  show "GetVlanIds s = (concat (map elementNumbers (Split s (CHR '',''))), None)"
    if "matchesTrunkPattern s \<and> (\<forall>v\<in>set (Split s (CHR '','')). elementInRange v)"
    using that GetVlanIds_accepts by blast
qed

theorem GetVlanIds_bounded_by_int_only_witness:
  "matchesTrunkPattern ''99999,4094-4097''
   \<and> GetVlanIds ''99999,4094-4097'' = ([99999, 4094, 4095, 4096, 4097], None)"
proof -
  have pat: "matchesTrunkPattern ''99999,4094-4097''" by code_simp
  have els: "\<forall>v\<in>set (Split ''99999,4094-4097'' (CHR '','')). elementInRange v" by code_simp
  have nums: "concat (map elementNumbers (Split ''99999,4094-4097'' (CHR '','')))
      = [99999, 4094, 4095, 4096, 4097]" by code_simp
  have "GetVlanIds ''99999,4094-4097''
      = (concat (map elementNumbers (Split ''99999,4094-4097'' (CHR '',''))), None)"
    using GetVlanIds_bounded_by_int_only [where s = "''99999,4094-4097''"] pat els by blast
  then show ?thesis using pat nums by simp
qed

text \<open>
  The claim as it was written fails at two places. The decimal element
  \<^verbatim>\<open>"99999999999999999999"\<close> is above the range of \<^verbatim>\<open>int\<close>: \<^verbatim>\<open>Atoi\<close> gives the largest
  \<^verbatim>\<open>int\<close> with an error that the function drops, so the number returned is not the one
  written. The range \<^verbatim>\<open>"0-5000"\<close> has a maximum above 4095 and is rejected, as its minimum
  is 0.
\<close>

theorem GetVlanIds_every_number_counterexample:
  "list_all isDigit ''99999999999999999999''
   \<and> decimal ''99999999999999999999'' = 99999999999999999999
   \<and> GetVlanIds ''99999999999999999999'' = ([9223372036854775807], None)
   \<and> GetVlanIds ''0-5000'' = ([], Some TrunkFormatInvalid)"
proof (intro conjI)
  show "list_all isDigit ''99999999999999999999''" by code_simp
  show "decimal ''99999999999999999999'' = 99999999999999999999" by code_simp
  show "GetVlanIds ''99999999999999999999'' = ([9223372036854775807], None)" by code_simp
  show "GetVlanIds ''0-5000'' = ([], Some TrunkFormatInvalid)" by code_simp
qed


section \<open>Properties of the NAD classification\<close>

subsection \<open>ShouldTriggerTopoAction\<close>

lemma sort_eq_iff_mset: "(sort xs = sort ys) = (mset xs = mset ys)" for xs ys :: "int list"
proof
  assume "sort xs = sort ys"
  then have "mset (sort xs) = mset (sort ys)" by simp
  then show "mset xs = mset ys" by simp
next
  assume "mset xs = mset ys"
  then show "sort xs = sort ys" by (simp add: properties_for_sort)
qed

lemma overlays_loop_wellformed:
  "list_all overlayWellFormed overlays \<Longrightarrow>
   overlays_loop overlays acc = Inr (acc @ map overlayRange overlays)"
  by (induction overlays arbitrary: acc)
     (auto simp: overlayWellFormed_def overlayRange_def valueOrEmpty_def split: option.splits)

lemma checkVlanMode_no_error: "snd (snd (checkVlanMode nc a)) = None"
  by (simp add: checkVlanMode_def)

lemma checkVlanMode_netconf: "fst (checkVlanMode nc a) = nc"
  by (simp add: checkVlanMode_def)

lemma checkOverlays_netconf: "fst (checkOverlays u nc a) = nc"
  by (simp add: checkOverlays_def Let_def split: option.split sum.split)

lemma checkOverlays_eligible_no_error:
  "fst (snd (checkOverlays u nc a)) \<longrightarrow> snd (snd (checkOverlays u nc a)) = None"
  by (simp add: checkOverlays_def Let_def split: option.split sum.split)

lemma STA_eligible_no_error_imp:
  "fst (snd (ShouldTriggerTopoAction g u nad)) \<longrightarrow> snd (snd (ShouldTriggerTopoAction g u nad)) = None"
  by (simp add: ShouldTriggerTopoAction_def Let_def checkVlanMode_no_error
        checkOverlays_eligible_no_error split: option.split sum.split)

lemma STA_eligible_no_error:
  "eligible g u nad \<Longrightarrow> snd (snd (ShouldTriggerTopoAction g u nad)) = None"
  using STA_eligible_no_error_imp by (simp add: eligible_def)

lemma STA_netconf:
  "g (Config nad) = Some nc \<Longrightarrow> fst (ShouldTriggerTopoAction g u nad) = nc"
  by (simp add: ShouldTriggerTopoAction_def Let_def checkVlanMode_netconf checkOverlays_netconf
        split: sum.split)

lemma STA_eligible_config:
  "eligible g u nad \<Longrightarrow> \<exists>nc. g (Config nad) = Some nc"
  by (cases "g (Config nad)") (simp_all add: ShouldTriggerTopoAction_def eligible_def)

lemma STA_eligible_nodeSelector_imp:
  "fst (snd (ShouldTriggerTopoAction g u nad)) \<longrightarrow> hasValue (Annotations nad) NodeSelectorKey"
  by (simp add: ShouldTriggerTopoAction_def Let_def split: option.split sum.split)

lemma STA_eligible_nodeSelector:
  "eligible g u nad \<Longrightarrow> hasValue (Annotations nad) NodeSelectorKey"
  using STA_eligible_nodeSelector_imp by (simp add: eligible_def)

lemma nadTypeSwitch_sriov_overlay:
  "Type nc = ''sriov'' \<Longrightarrow> VlanTrunk nc \<noteq> [] \<Longrightarrow> hasValue a SriovResourceKey \<Longrightarrow>
   nadTypeSwitch nc a = Inr False"
  by (simp add: nadTypeSwitch_def)

lemma keys_distinct:
  "SriovResourceKey \<noteq> NodeSelectorKey" "ExtProjectNameKey \<noteq> NodeSelectorKey"
  "ExtNetworkNameKey \<noteq> NodeSelectorKey" "SriovOverlaysKey \<noteq> NodeSelectorKey"
  by (simp_all add: SriovResourceKey_def NodeSelectorKey_def ExtProjectNameKey_def
      ExtNetworkNameKey_def SriovOverlaysKey_def)

lemma STU_new_not_eligible:
  assumes "eligible g u oldNad" "\<not> eligible g u newNad"
  shows "snd (snd (ShouldTriggerTopoUpdate g u oldNad newNad)) \<noteq> None"
  using assms by (simp add: ShouldTriggerTopoUpdate_def Let_def eligible_def)

lemma STU_both_eligible:
  assumes "eligible g u oldNad" "eligible g u newNad"
  shows "ShouldTriggerTopoUpdate g u oldNad newNad =
     (let oldNetConf = netConfOf g u oldNad; newNetConf = netConfOf g u newNad;
          anno1 = Annotations oldNad; anno2 = Annotations newNad;
          ns1 = valueOrEmpty anno1 NodeSelectorKey; ns2 = valueOrEmpty anno2 NodeSelectorKey
      in if Type oldNetConf \<noteq> Type newNetConf then (NoAction, newNetConf, Some TypeChange)
         else if Vlan oldNetConf \<noteq> Vlan newNetConf then (NoAction, newNetConf, Some VlanChange)
         else if Type newNetConf = ''sriov'' \<and>
                 valueOrEmpty anno1 SriovResourceKey \<noteq> valueOrEmpty anno2 SriovResourceKey
         then (NoAction, newNetConf, Some ResourceNameChange)
         else if VlanTrunk oldNetConf = [] then
           (if valueOrEmpty anno1 ExtProjectNameKey \<noteq> valueOrEmpty anno2 ExtProjectNameKey
            then (NoAction, newNetConf, Some ProjectChange)
            else if valueOrEmpty anno1 ExtNetworkNameKey \<noteq> valueOrEmpty anno2 ExtNetworkNameKey
            then (NoAction, newNetConf, Some NetworkChange)
            else if ns1 = ns2 then (NoAction, newNetConf, None)
            else (UpdateAttachDetach, newNetConf, None))
         else if VlanTrunk oldNetConf = VlanTrunk newNetConf then
           (if ns1 = ns2 then (NoAction, newNetConf, None)
            else (UpdateAttachDetach, newNetConf, None))
         else if \<not> set (fst (GetVlanIds (VlanTrunk oldNetConf)))
                   \<subseteq> set (fst (GetVlanIds (VlanTrunk newNetConf)))
         then (NoAction, newNetConf, Some TrunkCanOnlyIncrease)
         else if ns1 \<noteq> ns2 then (NoAction, newNetConf, Some TrunkAndNodeSelectorChange)
         else (UpdateAttach, newNetConf, None))"
proof -
  have e: "snd (snd (ShouldTriggerTopoAction g u newNad)) = None"
    using assms(2) by (rule STA_eligible_no_error)
  have t: "fst (snd (ShouldTriggerTopoAction g u oldNad))" "fst (snd (ShouldTriggerTopoAction g u newNad))"
    using assms by (simp_all add: eligible_def)
  show ?thesis
    using e t by (auto simp add: ShouldTriggerTopoUpdate_def Let_def netConfOf_def list_all_iff subset_iff)
qed

lemma STU_old_eligible_UpdateAttach:
  assumes "eligible g u oldNad"
    and "fst (ShouldTriggerTopoUpdate g u oldNad newNad) = UpdateAttach"
  shows "eligible g u newNad"
proof (rule ccontr)
  assume "\<not> eligible g u newNad"
  then have "fst (ShouldTriggerTopoUpdate g u oldNad newNad) = NoAction"
    using assms(1) by (simp add: ShouldTriggerTopoUpdate_def Let_def eligible_def)
  with assms(2) show False by simp
qed

text \<open>
  Claim C6, as amended. For every SR-IOV NAD in overlay mode (\<^verbatim>\<open>vlan_trunk\<close> not empty) that
  passes the earlier checks (the annotations \<^verbatim>\<open>nodeSelector\<close> and \<^verbatim>\<open>resourceName\<close> not empty,
  a \<^verbatim>\<open>vlan_trunk\<close> that \<^verbatim>\<open>GetVlanIds\<close> accepts, an overlays annotation that is not empty
  and decodes to overlays which all have \<^verbatim>\<open>extProjectName\<close>, \<^verbatim>\<open>extNetworkName\<close> and an
  accepted \<^verbatim>\<open>vlanRange\<close>), \<^verbatim>\<open>ShouldTriggerTopoAction\<close> returns an error exactly when the
  vlans of the overlays' ranges, joined with commas, differ from the vlans of the trunk as
  sorted lists, that is as multisets: the order is ignored, duplicates count. Otherwise the
  NAD is eligible.
\<close>

theorem overlay_vlans_compared_as_sorted_lists:
  assumes "getNetConf (Config nad) = Some netConf"
    and "Type netConf = ''sriov''" and "VlanTrunk netConf \<noteq> []"
    and "hasValue (Annotations nad) NodeSelectorKey"
    and "hasValue (Annotations nad) SriovResourceKey"
    and "snd (GetVlanIds (VlanTrunk netConf)) = None"
    and "hasValue (Annotations nad) SriovOverlaysKey"
    and "unmarshalOverlays (valueOrEmpty (Annotations nad) SriovOverlaysKey) = Some overlays"
    and "list_all overlayWellFormed overlays"
  shows "ShouldTriggerTopoAction getNetConf unmarshalOverlays nad =
     (if mset (fst (GetVlanIds (VlanTrunk netConf))) =
         mset (fst (GetVlanIds (Join (map overlayRange overlays) '','')))
      then (netConf, True, None) else (netConf, False, Some DifferentVlanRanges))"
proof -
  have sw: "nadTypeSwitch netConf (Annotations nad) = Inr False"
    using assms by (simp add: nadTypeSwitch_sriov_overlay)
  have lp: "overlays_loop overlays [] = Inr (map overlayRange overlays)"
    using overlays_loop_wellformed [OF assms(9), of "[]"] by simp
  have "checkOverlays unmarshalOverlays netConf (Annotations nad) =
     (if mset (fst (GetVlanIds (VlanTrunk netConf))) =
         mset (fst (GetVlanIds (Join (map overlayRange overlays) '','')))
      then (netConf, True, None) else (netConf, False, Some DifferentVlanRanges))"
    using assms(6,7,8) lp by (simp add: checkOverlays_def Let_def sort_eq_iff_mset)
  then show ?thesis using assms(1,2,4) sw by (simp add: ShouldTriggerTopoAction_def Let_def)
qed

theorem overlay_vlans_compared_as_sorted_lists_witness:
  "fst (GetVlanIds ''10,20'') \<noteq> fst (GetVlanIds (Join [''20'', ''10''] '',''))
   \<and> ShouldTriggerTopoAction exampleGetNetConf exampleUnmarshalOverlays
        (exampleNad ''sriov:10,20''
           [(NodeSelectorKey, ''a''), (SriovResourceKey, ''r''), (SriovOverlaysKey, ''20;10'')])
      = (\<lparr>Type = ''sriov'', Master = [], Vlan = 0, VlanTrunk = ''10,20''\<rparr>, True, None)"
proof -
  let ?nad = "exampleNad ''sriov:10,20''
           [(NodeSelectorKey, ''a''), (SriovResourceKey, ''r''), (SriovOverlaysKey, ''20;10'')]"
  let ?nc = "\<lparr>Type = ''sriov'', Master = [], Vlan = 0, VlanTrunk = ''10,20''\<rparr>"
  let ?ovs = "[exampleOverlay ''20'', exampleOverlay ''10'']"
  have 1: "exampleGetNetConf (Config ?nad) = Some ?nc" by code_simp
  have 2: "Type ?nc = ''sriov''" "VlanTrunk ?nc \<noteq> []" by simp_all
  have 3: "hasValue (Annotations ?nad) NodeSelectorKey" by code_simp
  have 4: "hasValue (Annotations ?nad) SriovResourceKey" by code_simp
  have 5: "snd (GetVlanIds (VlanTrunk ?nc)) = None" by code_simp
  have 6: "hasValue (Annotations ?nad) SriovOverlaysKey" by code_simp
  have 7: "exampleUnmarshalOverlays (valueOrEmpty (Annotations ?nad) SriovOverlaysKey) = Some ?ovs"
    by (simp add: exampleUnmarshalOverlays_def valueOrEmpty_def exampleNad_def
        SriovOverlaysKey_def NodeSelectorKey_def SriovResourceKey_def)
  have 8: "list_all overlayWellFormed ?ovs" by code_simp
  have 9: "mset (fst (GetVlanIds (VlanTrunk ?nc))) =
           mset (fst (GetVlanIds (Join (map overlayRange ?ovs) '','')))" by code_simp
  have 10: "fst (GetVlanIds ''10,20'') \<noteq> fst (GetVlanIds (Join [''20'', ''10''] '',''))"
    by code_simp
  show ?thesis
    using overlay_vlans_compared_as_sorted_lists
        [where getNetConf = exampleGetNetConf and unmarshalOverlays = exampleUnmarshalOverlays
           and nad = ?nad and netConf = ?nc and overlays = ?ovs, OF 1 2 3 4 5 6 7 8] 9 10
    by simp
qed

text \<open>
  Equality of the two sets of vlans does not suffice: the trunk \<^verbatim>\<open>"10,10"\<close> and the one
  overlay range \<^verbatim>\<open>"10"\<close> give the same set and the NAD is refused.
\<close>

theorem overlay_vlans_as_sets_counterexample:
  "set (fst (GetVlanIds ''10,10'')) = set (fst (GetVlanIds (Join [''10''] '','')))
   \<and> ShouldTriggerTopoAction exampleGetNetConf exampleUnmarshalOverlays
        (exampleNad ''sriov:10,10''
           [(NodeSelectorKey, ''a''), (SriovResourceKey, ''r''), (SriovOverlaysKey, ''10'')])
      = (\<lparr>Type = ''sriov'', Master = [], Vlan = 0, VlanTrunk = ''10,10''\<rparr>, False,
         Some DifferentVlanRanges)"
proof
  show "set (fst (GetVlanIds ''10,10'')) = set (fst (GetVlanIds (Join [''10''] '','')))"
    by code_simp
  show "ShouldTriggerTopoAction exampleGetNetConf exampleUnmarshalOverlays
        (exampleNad ''sriov:10,10''
           [(NodeSelectorKey, ''a''), (SriovResourceKey, ''r''), (SriovOverlaysKey, ''10'')])
      = (\<lparr>Type = ''sriov'', Master = [], Vlan = 0, VlanTrunk = ''10,10''\<rparr>, False,
         Some DifferentVlanRanges)"
    by code_simp
qed

subsection \<open>ShouldTriggerTopoUpdate\<close>

text \<open>
  Claim C7. For two eligible NADs that differ in the \<^verbatim>\<open>nodeSelector\<close> annotation only,
  \<^verbatim>\<open>ShouldTriggerTopoUpdate\<close> returns \<^verbatim>\<open>UpdateAttachDetach\<close>; for two eligible NADs in overlay
  mode (the mode the function reads off the old \<^verbatim>\<open>vlan_trunk\<close>, which is not empty) whose
  \<^verbatim>\<open>vlan_trunk\<close> and \<^verbatim>\<open>nodeSelector\<close> both changed it returns an error; and it returns an
  error whenever the old NAD is eligible and the new one is not.
\<close>

theorem update_classification:
  "(eligible g u oldNad \<and> eligible g u newNad \<and> Config newNad = Config oldNad \<and>
    (\<forall>k. k \<noteq> NodeSelectorKey \<longrightarrow> Annotations newNad k = Annotations oldNad k) \<and>
    Annotations newNad NodeSelectorKey \<noteq> Annotations oldNad NodeSelectorKey
    \<longrightarrow> ShouldTriggerTopoUpdate g u oldNad newNad = (UpdateAttachDetach, netConfOf g u newNad, None))
   \<and> (eligible g u oldNad \<and> eligible g u newNad \<and>
       VlanTrunk (netConfOf g u oldNad) \<noteq> [] \<and>
       VlanTrunk (netConfOf g u oldNad) \<noteq> VlanTrunk (netConfOf g u newNad) \<and>
       valueOrEmpty (Annotations oldNad) NodeSelectorKey \<noteq> valueOrEmpty (Annotations newNad) NodeSelectorKey
       \<longrightarrow> fst (ShouldTriggerTopoUpdate g u oldNad newNad) = NoAction \<and>
           snd (snd (ShouldTriggerTopoUpdate g u oldNad newNad)) \<noteq> None)
   \<and> (eligible g u oldNad \<and> \<not> eligible g u newNad
       \<longrightarrow> fst (ShouldTriggerTopoUpdate g u oldNad newNad) = NoAction \<and>
           snd (snd (ShouldTriggerTopoUpdate g u oldNad newNad)) \<noteq> None)"
proof (intro conjI impI)
  assume h: "eligible g u oldNad \<and> eligible g u newNad \<and> Config newNad = Config oldNad \<and>
    (\<forall>k. k \<noteq> NodeSelectorKey \<longrightarrow> Annotations newNad k = Annotations oldNad k) \<and>
    Annotations newNad NodeSelectorKey \<noteq> Annotations oldNad NodeSelectorKey"
  then obtain nc where nc: "g (Config oldNad) = Some nc" using STA_eligible_config by blast
  have same: "netConfOf g u oldNad = nc" "netConfOf g u newNad = nc"
    using nc h STA_netconf by (simp_all add: netConfOf_def)
  have "hasValue (Annotations oldNad) NodeSelectorKey" "hasValue (Annotations newNad) NodeSelectorKey"
    using h STA_eligible_nodeSelector by blast+
  then have ns: "valueOrEmpty (Annotations oldNad) NodeSelectorKey \<noteq>
                 valueOrEmpty (Annotations newNad) NodeSelectorKey"
    using h by (auto simp: hasValue_def valueOrEmpty_def split: option.splits)
  have others: "valueOrEmpty (Annotations oldNad) SriovResourceKey = valueOrEmpty (Annotations newNad) SriovResourceKey"
    "valueOrEmpty (Annotations oldNad) ExtProjectNameKey = valueOrEmpty (Annotations newNad) ExtProjectNameKey"
    "valueOrEmpty (Annotations oldNad) ExtNetworkNameKey = valueOrEmpty (Annotations newNad) ExtNetworkNameKey"
    using h keys_distinct by (simp_all add: valueOrEmpty_def)
  show "ShouldTriggerTopoUpdate g u oldNad newNad = (UpdateAttachDetach, netConfOf g u newNad, None)"
    using h ns others same by (simp add: STU_both_eligible Let_def)
next
  assume h: "eligible g u oldNad \<and> eligible g u newNad \<and>
       VlanTrunk (netConfOf g u oldNad) \<noteq> [] \<and>
       VlanTrunk (netConfOf g u oldNad) \<noteq> VlanTrunk (netConfOf g u newNad) \<and>
       valueOrEmpty (Annotations oldNad) NodeSelectorKey \<noteq> valueOrEmpty (Annotations newNad) NodeSelectorKey"
  then show "fst (ShouldTriggerTopoUpdate g u oldNad newNad) = NoAction"
    by (simp add: STU_both_eligible Let_def)
  from h show "snd (snd (ShouldTriggerTopoUpdate g u oldNad newNad)) \<noteq> None"
    by (simp add: STU_both_eligible Let_def)
next
  assume h: "eligible g u oldNad \<and> \<not> eligible g u newNad"
  then show "fst (ShouldTriggerTopoUpdate g u oldNad newNad) = NoAction"
    by (simp add: ShouldTriggerTopoUpdate_def Let_def eligible_def)
  from h show "snd (snd (ShouldTriggerTopoUpdate g u oldNad newNad)) \<noteq> None"
    using STU_new_not_eligible by blast
qed

theorem update_classification_witness:
  "ShouldTriggerTopoUpdate exampleGetNetConf exampleUnmarshalOverlays
     (exampleNad ''ipvlan''
        [(NodeSelectorKey, ''a''), (ExtProjectNameKey, ''p''), (ExtNetworkNameKey, ''n'')])
     (exampleNad ''ipvlan''
        [(NodeSelectorKey, ''b''), (ExtProjectNameKey, ''p''), (ExtNetworkNameKey, ''n'')])
   = (UpdateAttachDetach,
      \<lparr>Type = ''ipvlan'', Master = ''tenant-bond'', Vlan = 100, VlanTrunk = []\<rparr>, None)
   \<and> snd (snd (ShouldTriggerTopoUpdate exampleGetNetConf exampleUnmarshalOverlays
       (exampleNad ''sriov:10,20''
          [(NodeSelectorKey, ''a''), (SriovResourceKey, ''r''), (SriovOverlaysKey, ''10,20'')])
       (exampleNad ''sriov:10,20,30''
          [(NodeSelectorKey, ''b''), (SriovResourceKey, ''r''), (SriovOverlaysKey, ''10,20;30'')])))
       \<noteq> None
   \<and> snd (snd (ShouldTriggerTopoUpdate exampleGetNetConf exampleUnmarshalOverlays
       (exampleNad ''ipvlan''
          [(NodeSelectorKey, ''a''), (ExtProjectNameKey, ''p''), (ExtNetworkNameKey, ''n'')])
       (exampleNad ''ipvlan'' [(ExtProjectNameKey, ''p''), (ExtNetworkNameKey, ''n'')])))
       \<noteq> None"
proof -
  let ?g = exampleGetNetConf and ?u = exampleUnmarshalOverlays
  let ?a1 = "exampleNad ''ipvlan''
        [(NodeSelectorKey, ''a''), (ExtProjectNameKey, ''p''), (ExtNetworkNameKey, ''n'')]"
  let ?a2 = "exampleNad ''ipvlan''
        [(NodeSelectorKey, ''b''), (ExtProjectNameKey, ''p''), (ExtNetworkNameKey, ''n'')]"
  let ?b1 = "exampleNad ''sriov:10,20''
          [(NodeSelectorKey, ''a''), (SriovResourceKey, ''r''), (SriovOverlaysKey, ''10,20'')]"
  let ?b2 = "exampleNad ''sriov:10,20,30''
          [(NodeSelectorKey, ''b''), (SriovResourceKey, ''r''), (SriovOverlaysKey, ''10,20;30'')]"
  let ?c2 = "exampleNad ''ipvlan'' [(ExtProjectNameKey, ''p''), (ExtNetworkNameKey, ''n'')]"
  have a: "eligible ?g ?u ?a1 \<and> eligible ?g ?u ?a2 \<and> Config ?a2 = Config ?a1 \<and>
    (\<forall>k. k \<noteq> NodeSelectorKey \<longrightarrow> Annotations ?a2 k = Annotations ?a1 k) \<and>
    Annotations ?a2 NodeSelectorKey \<noteq> Annotations ?a1 NodeSelectorKey"
  proof (intro conjI)
    show "eligible ?g ?u ?a1" by code_simp
    show "eligible ?g ?u ?a2" by code_simp
    show "Config ?a2 = Config ?a1" by (simp add: exampleNad_def)
    show "\<forall>k. k \<noteq> NodeSelectorKey \<longrightarrow> Annotations ?a2 k = Annotations ?a1 k"
      by (simp add: exampleNad_def)
    show "Annotations ?a2 NodeSelectorKey \<noteq> Annotations ?a1 NodeSelectorKey"
      by (simp add: exampleNad_def)
  qed
  have anc: "netConfOf ?g ?u ?a2 =
      \<lparr>Type = ''ipvlan'', Master = ''tenant-bond'', Vlan = 100, VlanTrunk = []\<rparr>" by code_simp
  have b: "eligible ?g ?u ?b1 \<and> eligible ?g ?u ?b2 \<and>
       VlanTrunk (netConfOf ?g ?u ?b1) \<noteq> [] \<and>
       VlanTrunk (netConfOf ?g ?u ?b1) \<noteq> VlanTrunk (netConfOf ?g ?u ?b2) \<and>
       valueOrEmpty (Annotations ?b1) NodeSelectorKey \<noteq> valueOrEmpty (Annotations ?b2) NodeSelectorKey"
    by code_simp
  have c: "eligible ?g ?u ?a1 \<and> \<not> eligible ?g ?u ?c2" by code_simp
  show ?thesis
    using a anc b c
      update_classification [where g = ?g and u = ?u and oldNad = ?a1 and newNad = ?a2]
      update_classification [where g = ?g and u = ?u and oldNad = ?b1 and newNad = ?b2]
      update_classification [where g = ?g and u = ?u and oldNad = ?a1 and newNad = ?c2]
    by presburger
qed

text \<open>
  Claim C8, as amended. For every pair of NADs with an eligible old NAD that
  \<^verbatim>\<open>ShouldTriggerTopoUpdate\<close> classifies as \<^verbatim>\<open>UpdateAttach\<close>, the vlans of the new
  \<^verbatim>\<open>vlan_trunk\<close> are a superset of the vlans of the old one. For every pair of eligible
  NADs the classification is \<^verbatim>\<open>UpdateAttachDetach\<close> if and only if the \<^verbatim>\<open>nodeSelector\<close>
  changed and what the function compares did not: the type, the vlan, the
  \<^verbatim>\<open>resourceName\<close> of an SR-IOV NAD, and the project and the network when the old
  \<^verbatim>\<open>vlan_trunk\<close> is empty, the \<^verbatim>\<open>vlan_trunk\<close> when it is not.
\<close>

theorem UpdateAttach_and_UpdateAttachDetach:
  "(eligible g u oldNad \<and> fst (ShouldTriggerTopoUpdate g u oldNad newNad) = UpdateAttach
    \<longrightarrow> set (fst (GetVlanIds (VlanTrunk (netConfOf g u oldNad))))
          \<subseteq> set (fst (GetVlanIds (VlanTrunk (netConfOf g u newNad)))))
   \<and> (eligible g u oldNad \<and> eligible g u newNad
       \<longrightarrow> (fst (ShouldTriggerTopoUpdate g u oldNad newNad) = UpdateAttachDetach) =
           (valueOrEmpty (Annotations oldNad) NodeSelectorKey
              \<noteq> valueOrEmpty (Annotations newNad) NodeSelectorKey \<and>
            Type (netConfOf g u oldNad) = Type (netConfOf g u newNad) \<and>
            Vlan (netConfOf g u oldNad) = Vlan (netConfOf g u newNad) \<and>
            (Type (netConfOf g u newNad) = ''sriov'' \<longrightarrow>
               valueOrEmpty (Annotations oldNad) SriovResourceKey
                 = valueOrEmpty (Annotations newNad) SriovResourceKey) \<and>
            (if VlanTrunk (netConfOf g u oldNad) = []
             then valueOrEmpty (Annotations oldNad) ExtProjectNameKey
                    = valueOrEmpty (Annotations newNad) ExtProjectNameKey \<and>
                  valueOrEmpty (Annotations oldNad) ExtNetworkNameKey
                    = valueOrEmpty (Annotations newNad) ExtNetworkNameKey
             else VlanTrunk (netConfOf g u oldNad) = VlanTrunk (netConfOf g u newNad))))"
proof (intro conjI impI)
  assume h: "eligible g u oldNad \<and> fst (ShouldTriggerTopoUpdate g u oldNad newNad) = UpdateAttach"
  then have en: "eligible g u newNad" using STU_old_eligible_UpdateAttach by blast
  show "set (fst (GetVlanIds (VlanTrunk (netConfOf g u oldNad))))
          \<subseteq> set (fst (GetVlanIds (VlanTrunk (netConfOf g u newNad))))"
  proof (rule ccontr)
    assume "\<not> ?thesis"
    then have "fst (ShouldTriggerTopoUpdate g u oldNad newNad) \<noteq> UpdateAttach"
      using h en by (simp add: STU_both_eligible Let_def)
    with h show False by simp
  qed
next
  assume h: "eligible g u oldNad \<and> eligible g u newNad"
  then show "(fst (ShouldTriggerTopoUpdate g u oldNad newNad) = UpdateAttachDetach) =
           (valueOrEmpty (Annotations oldNad) NodeSelectorKey
              \<noteq> valueOrEmpty (Annotations newNad) NodeSelectorKey \<and>
            Type (netConfOf g u oldNad) = Type (netConfOf g u newNad) \<and>
            Vlan (netConfOf g u oldNad) = Vlan (netConfOf g u newNad) \<and>
            (Type (netConfOf g u newNad) = ''sriov'' \<longrightarrow>
               valueOrEmpty (Annotations oldNad) SriovResourceKey
                 = valueOrEmpty (Annotations newNad) SriovResourceKey) \<and>
            (if VlanTrunk (netConfOf g u oldNad) = []
             then valueOrEmpty (Annotations oldNad) ExtProjectNameKey
                    = valueOrEmpty (Annotations newNad) ExtProjectNameKey \<and>
                  valueOrEmpty (Annotations oldNad) ExtNetworkNameKey
                    = valueOrEmpty (Annotations newNad) ExtNetworkNameKey
             else VlanTrunk (netConfOf g u oldNad) = VlanTrunk (netConfOf g u newNad)))"
    by (auto simp add: STU_both_eligible Let_def)
qed

theorem UpdateAttach_and_UpdateAttachDetach_witness:
  "fst (ShouldTriggerTopoUpdate exampleGetNetConf exampleUnmarshalOverlays
     (exampleNad ''sriov:10,20''
        [(NodeSelectorKey, ''a''), (SriovResourceKey, ''r''), (SriovOverlaysKey, ''10,20'')])
     (exampleNad ''sriov:10,20,30''
        [(NodeSelectorKey, ''a''), (SriovResourceKey, ''r''), (SriovOverlaysKey, ''10,20;30'')]))
   = UpdateAttach
   \<and> set (fst (GetVlanIds ''10,20'')) \<subseteq> set (fst (GetVlanIds ''10,20,30''))
   \<and> fst (ShouldTriggerTopoUpdate exampleGetNetConf exampleUnmarshalOverlays
     (exampleNad ''ipvlan''
        [(NodeSelectorKey, ''a''), (ExtProjectNameKey, ''p''), (ExtNetworkNameKey, ''n'')])
     (exampleNad ''ipvlan''
        [(NodeSelectorKey, ''b''), (ExtProjectNameKey, ''p''), (ExtNetworkNameKey, ''n'')]))
   = UpdateAttachDetach"
proof -
  let ?g = exampleGetNetConf and ?u = exampleUnmarshalOverlays
  let ?a1 = "exampleNad ''ipvlan''
        [(NodeSelectorKey, ''a''), (ExtProjectNameKey, ''p''), (ExtNetworkNameKey, ''n'')]"
  let ?a2 = "exampleNad ''ipvlan''
        [(NodeSelectorKey, ''b''), (ExtProjectNameKey, ''p''), (ExtNetworkNameKey, ''n'')]"
  let ?b1 = "exampleNad ''sriov:10,20''
          [(NodeSelectorKey, ''a''), (SriovResourceKey, ''r''), (SriovOverlaysKey, ''10,20'')]"
  let ?b2 = "exampleNad ''sriov:10,20,30''
          [(NodeSelectorKey, ''a''), (SriovResourceKey, ''r''), (SriovOverlaysKey, ''10,20;30'')]"
  have b: "eligible ?g ?u ?b1 \<and> fst (ShouldTriggerTopoUpdate ?g ?u ?b1 ?b2) = UpdateAttach"
    by code_simp
  have bn: "VlanTrunk (netConfOf ?g ?u ?b1) = ''10,20''" "VlanTrunk (netConfOf ?g ?u ?b2) = ''10,20,30''"
    by code_simp+
  have a: "eligible ?g ?u ?a1 \<and> eligible ?g ?u ?a2" by code_simp
  have rhs: "valueOrEmpty (Annotations ?a1) NodeSelectorKey
              \<noteq> valueOrEmpty (Annotations ?a2) NodeSelectorKey \<and>
            Type (netConfOf ?g ?u ?a1) = Type (netConfOf ?g ?u ?a2) \<and>
            Vlan (netConfOf ?g ?u ?a1) = Vlan (netConfOf ?g ?u ?a2) \<and>
            (Type (netConfOf ?g ?u ?a2) = ''sriov'' \<longrightarrow>
               valueOrEmpty (Annotations ?a1) SriovResourceKey
                 = valueOrEmpty (Annotations ?a2) SriovResourceKey) \<and>
            (if VlanTrunk (netConfOf ?g ?u ?a1) = []
             then valueOrEmpty (Annotations ?a1) ExtProjectNameKey
                    = valueOrEmpty (Annotations ?a2) ExtProjectNameKey \<and>
                  valueOrEmpty (Annotations ?a1) ExtNetworkNameKey
                    = valueOrEmpty (Annotations ?a2) ExtNetworkNameKey
             else VlanTrunk (netConfOf ?g ?u ?a1) = VlanTrunk (netConfOf ?g ?u ?a2))"
    by code_simp
  have 1: "set (fst (GetVlanIds (VlanTrunk (netConfOf ?g ?u ?b1))))
          \<subseteq> set (fst (GetVlanIds (VlanTrunk (netConfOf ?g ?u ?b2))))"
    using b UpdateAttach_and_UpdateAttachDetach
        [where g = ?g and u = ?u and oldNad = ?b1 and newNad = ?b2] by blast
  have 2: "fst (ShouldTriggerTopoUpdate ?g ?u ?a1 ?a2) = UpdateAttachDetach"
    using a rhs UpdateAttach_and_UpdateAttachDetach
        [where g = ?g and u = ?u and oldNad = ?a1 and newNad = ?a2] by blast
  show ?thesis using b 1 2 by (simp only: bn)
qed

text \<open>
  A NAD that was not eligible (it has no \<^verbatim>\<open>nodeSelector\<close>) and becomes eligible is
  classified as \<^verbatim>\<open>UpdateAttach\<close> whatever the two trunks are: here the old trunk is
  \<^verbatim>\<open>"10,20"\<close> and the new one \<^verbatim>\<open>"30"\<close>.
\<close>

theorem UpdateAttach_superset_counterexample:
  "ShouldTriggerTopoUpdate exampleGetNetConf exampleUnmarshalOverlays
     (exampleNad ''sriov:10,20'' [(SriovResourceKey, ''r''), (SriovOverlaysKey, ''10,20'')])
     (exampleNad ''sriov:30''
        [(NodeSelectorKey, ''a''), (SriovResourceKey, ''r''), (SriovOverlaysKey, ''30'')])
   = (UpdateAttach, \<lparr>Type = ''sriov'', Master = [], Vlan = 0, VlanTrunk = ''30''\<rparr>, None)
   \<and> GetVlanIds ''10,20'' = ([10, 20], None)
   \<and> GetVlanIds ''30'' = ([30], None)"
  by code_simp

end
